theory Spec2Isabelle
  imports Complex_Main
begin

section \<open>Replies of the route handlers\<close>

text \<open>
  Every Express handler ends in one \<open>res.status(n).json(...)\<close>. The three shapes the
  routes produce are kept apart: a document (or list of documents), the object
  \<open>{ message }\<close>, and the validator's \<open>{ errors: [...] }\<close>. \<open>res.json(x)\<close> is status 200.
  A message the handler builds with a template literal is kept as the list of the
  template's pieces, the literal texts and the values put between them: how a Number prints
  (\<open>Number::toString\<close>: \<open>1e+21\<close>, \<open>2.5\<close>) is not modelled. An id is modelled by the string
  \<open>toString()\<close> gives for it; \<open>undefined\<close> is \<open>None\<close>.
\<close>

datatype piece = Literal string | String_value string | Number_value rat

datatype 'a reply =
    Json nat 'a
  | Message nat string
  | Template nat "piece list"
  | Errors nat "string list"

definition truthy :: "string option \<Rightarrow> bool" where
  \<comment> \<open>\<open>!x\<close> is false exactly for a present, non-empty string\<close>
  "truthy x = (case x of None \<Rightarrow> False | Some s \<Rightarrow> s \<noteq> [])"

section \<open>JavaScript Numbers\<close>

text \<open>
  A Number is an IEEE 754 double. The finite doubles are rationals, \<open>m * 2 ^ e\<close> with
  \<open>\<bar>m\<bar> < 2 ^ 53\<close> and \<open>- 1074 \<le> e\<close>, and \<open>+\<close>, \<open>-\<close> and \<open>*\<close> give the exact result rounded to the
  nearest double, ties to the even mantissa: \<open>fl\<close>. The Numbers of the model are rationals,
  the stored ones taken to be doubles, and every operation of a handler is the exact one
  followed by \<open>fl\<close>; comparisons are exact. The cart routes admit integer quantities only
  (\<open>isInt\<close>), so a cart line's quantity is an \<open>int\<close>. Results beyond the largest double
  (Infinity), NaN and the sign of zero are outside the model.
\<close>

definition pow2 :: "int \<Rightarrow> rat" where
  "pow2 e = (if 0 \<le> e then 2 ^ nat e else 1 / 2 ^ nat (- e))"

function blen :: "int \<Rightarrow> int" where
  \<comment> \<open>the number of binary digits of a positive integer\<close>
  "blen n = (if n \<le> 0 then 0 else blen (n div 2) + 1)"
  by pat_completeness auto
termination
  by (relation "measure nat") auto

declare blen.simps [simp del]

definition ilog2 :: "rat \<Rightarrow> int" where
  \<comment> \<open>for \<open>0 < x\<close>, the exponent \<open>k\<close> with \<open>2 ^ k \<le> x < 2 ^ (k + 1)\<close>\<close>
  "ilog2 x = (if 1 \<le> x then blen \<lfloor>x\<rfloor> - 1 else - blen (\<lceil>1 / x\<rceil> - 1))"

definition round_half_even :: "rat \<Rightarrow> int" where
  "round_half_even y =
     (let f = \<lfloor>y\<rfloor>; r = y - of_int f
      in if r < 1 / 2 then f else if 1 / 2 < r then f + 1 else if even f then f else f + 1)"

definition fl :: "rat \<Rightarrow> rat" where
  \<comment> \<open>the mantissa has 53 bits; below \<open>2 ^ - 1022\<close> the exponent stays at \<open>- 1074\<close>\<close>
  "fl x =
     (if x = 0 then 0
      else
        let e = max (ilog2 \<bar>x\<bar> - 52) (- 1074)
        in sgn x * of_int (round_half_even (\<bar>x\<bar> / pow2 e)) * pow2 e)"

section \<open>Orders (the orders routes with checkout, src/unnamed/part_000)\<close>

text \<open>
  The sources hold two copies of the orders routes. The one modelled here is the copy
  with the checkout route (src/unnamed/part_000); the older copy (src/routes/orders.js)
  has the same status route, and a direct order route that differs in its validation
  chain and in the names \<open>buyer\<close> and \<open>shippingAddress\<close>, not in its loop nor in how it sets
  the farmer. The handlers are
  modelled from the point where the \<open>protect\<close> and \<open>authorize\<close> middleware has let the
  request through; \<open>user_id\<close> is \<open>req.user.id\<close>.
\<close>

record shipping_details =
  fullName :: "string option"
  address :: "string option"
  city :: "string option"
  state :: "string option"
  postalCode :: "string option"
  phoneNumber :: "string option"

record order_item =
  oi_product :: string
  oi_quantity :: rat
  oi_price :: rat
  oi_name :: string

text \<open>
  The fields the handlers pass to \<open>new Order({...})\<close>, plus \<open>status\<close> and \<open>cancelReason\<close>,
  which the status route writes. \<open>o_farmer\<close> is optional because the direct order route
  passes \<open>undefined\<close> there. The ledger is the list of saved orders; an order's id is its
  position in it.
\<close>

record order =
  o_consumer :: string
  o_farmer :: "string option"
  o_items :: "order_item list"
  o_totalAmount :: rat
  o_paymentMethod :: "string option"
  o_shippingDetails :: "shipping_details option"
  o_notes :: "string option"
  o_status :: string
  o_cancelReason :: "string option"

definition initial_status :: string where
  \<comment> \<open>Modelled from the spec: the Order schema (models/Order.js) is not among the sources;
      the spec's status chain starts at pending, which a new order gets as its default.\<close>
  "initial_status = ''pending''"

subsection \<open>PUT /api/orders/:id\<close>

definition status_values :: "string list" where
  "status_values = [''confirmed'', ''processing'', ''shipped'', ''delivered'', ''cancelled'']"

record status_body =
  sb_status :: "string option"
  sb_cancelReason :: "string option"

text \<open>
  \<open>accepts\<close> stands for the validation \<open>order.save()\<close> runs against the Order schema, which is
  not among the sources; a rejected save throws and the handler's catch answers 500.
  \<open>order.farmer.toString()\<close> throws for an order without farmer, which also ends in the catch.
\<close>

definition assign_status :: "status_body \<Rightarrow> string \<Rightarrow> order \<Rightarrow> order" where
  \<comment> \<open>\<open>order.status = req.body.status\<close>, and the cancel reason when the status is cancelled\<close>
  "assign_status body s order =
     (if s = ''cancelled''
      then order\<lparr>o_status := s, o_cancelReason := sb_cancelReason body\<rparr>
      else order\<lparr>o_status := s\<rparr>)"

definition put_order_status ::
  "(order \<Rightarrow> bool) \<Rightarrow> order list \<Rightarrow> string \<Rightarrow> nat \<Rightarrow> status_body \<Rightarrow> order reply \<times> order list" where
  "put_order_status accepts ledger user_id oid body =
    (case sb_status body of
       None \<Rightarrow> (Errors 400 [''Status is required''], ledger)
     | Some s \<Rightarrow>
         if s \<notin> set status_values then (Errors 400 [''Status is required''], ledger)
         else if length ledger \<le> oid then (Message 404 ''Order not found'', ledger)
         else
           let order = ledger ! oid in
           (case o_farmer order of
              None \<Rightarrow> (Message 500 ''Server Error'', ledger)
            | Some f \<Rightarrow>
                if f \<noteq> user_id then (Message 401 ''Not authorized'', ledger)
                else
                  let order' = assign_status body s order
                  in if accepts order' then (Json 200 order', ledger[oid := order'])
                     else (Message 500 ''Server Error'', ledger)))"

definition sample_order :: "string \<Rightarrow> order" where
  "sample_order st =
     \<lparr>o_consumer = ''C1'', o_farmer = Some ''F1'', o_items = [],
      o_totalAmount = 0, o_paymentMethod = Some ''online'', o_shippingDetails = None,
      o_notes = None, o_status = st, o_cancelReason = None\<rparr>"

section \<open>Products (models/Product.js)\<close>

text \<open>
  The paths of the schema that the cart and order routes read or write, and \<open>status\<close>.
  The other required paths (description, category, unit, harvestDate) are written by the
  product routes only, whose validation chains check them; they are taken to hold valid
  values and left out.
\<close>

record product =
  p_farmer :: string
  p_name :: string
  p_price :: rat
  p_quantity :: rat
  p_status :: string

definition product_pre_save :: "product \<Rightarrow> product" where
  \<comment> \<open>productSchema.pre('save'): status derived from quantity\<close>
  "product_pre_save this =
     this\<lparr>p_status := (if p_quantity this > 0 then ''available'' else ''sold_out'')\<rparr>"

text \<open>
  \<open>product.save()\<close>: Mongoose validates the document first, every path it loaded and not
  only the modified ones, then runs the hook; a failed validation throws (\<open>None\<close>). So a
  stored status outside the enum makes the save fail although the hook would overwrite it.
  The validators: \<open>name\<close> required (an empty string fails), \<open>quantity\<close> with \<open>min: 0\<close>,
  \<open>status\<close> within its enum; \<open>farmer\<close> and \<open>price\<close> are present by their types.
\<close>

definition product_valid :: "product \<Rightarrow> bool" where
  "product_valid this =
     (p_name this \<noteq> [] \<and> 0 \<le> p_quantity this
      \<and> (p_status this = ''available'' \<or> p_status this = ''sold_out''))"

definition product_save :: "product \<Rightarrow> product option" where
  "product_save this = (if product_valid this then Some (product_pre_save this) else None)"

section \<open>Carts (the Cart model, src/unnamed/part_002, and routes/cart.js)\<close>

record cart_item =
  ci_id :: string
  ci_product :: string
  ci_quantity :: int

record cart =
  c_items :: "cart_item list"
  c_total :: rat

text \<open>
  The database: products by id, carts by user (the schema's \<open>user\<close> is unique, so
  \<open>findOne({ user })\<close> and \<open>findOne({ _id: this._id })\<close> find the same stored document), and
  the order ledger.
\<close>

record db =
  products :: "string \<rightharpoonup> product"
  carts :: "string \<rightharpoonup> cart"
  orders :: "order list"

definition populated_total :: "(string \<rightharpoonup> product) \<Rightarrow> cart_item list \<Rightarrow> rat" where
  \<comment> \<open>the reduce of the hook over the populated items; a missing product or a price 0 adds nothing\<close>
  "populated_total ps its =
     foldl (\<lambda>sum item.
        (case ps (ci_product item) of
           None \<Rightarrow> sum
         | Some p \<Rightarrow>
             if p_price p \<noteq> 0 then fl (sum + fl (p_price p * of_int (ci_quantity item)))
             else sum))
       0 its"

text \<open>
  cartSchema.pre('save'). \<open>stored\<close> is what \<open>mongoose.model('Cart').findOne({ _id: this._id })\<close>
  returns: the cart as it is in the database before this save. \<open>modified\<close> is
  \<open>this.isModified('items')\<close>.
\<close>

definition cart_pre_save :: "(string \<rightharpoonup> product) \<Rightarrow> cart option \<Rightarrow> bool \<Rightarrow> cart \<Rightarrow> cart" where
  "cart_pre_save ps stored modified this =
     (if modified then
        (case stored of
           None \<Rightarrow> this\<lparr>c_total := 0\<rparr>
         | Some populatedCart \<Rightarrow>
             if c_items populatedCart \<noteq> []
             then this\<lparr>c_total := populated_total ps (c_items populatedCart)\<rparr>
             else this\<lparr>c_total := 0\<rparr>)
      else this)"

text \<open>
  \<open>cart.save()\<close> by user \<open>u\<close>: a new document counts as modified; a loaded one is modified
  when its items differ from the loaded ones (Mongoose marks a path only when the value
  set differs from the current one).
\<close>

definition cart_save :: "db \<Rightarrow> string \<Rightarrow> cart \<Rightarrow> cart" where
  "cart_save d u this =
     cart_pre_save (products d) (carts d u)
       (case carts d u of None \<Rightarrow> True | Some loaded \<Rightarrow> c_items this \<noteq> c_items loaded)
       this"

fun findIndex :: "('a \<Rightarrow> bool) \<Rightarrow> 'a list \<Rightarrow> nat option" where
  "findIndex P [] = None"
| "findIndex P (x # xs) = (if P x then Some 0 else map_option Suc (findIndex P xs))"

subsection \<open>POST /api/cart\<close>

text \<open>
  The route looks the product up by the parameter cast to an ObjectId and compares the
  lines' ids, as strings, with the parameter as it was sent. The model takes the parameter
  in the spelling \<open>toString()\<close> gives; for another spelling of a stored id (upper-case
  digits) the route finds the product, matches no line and pushes a second line for it. So
  a cart can hold several lines of one product, and nothing below assumes otherwise unless
  it says so.
\<close>

definition post_cart :: "db \<Rightarrow> string \<Rightarrow> string \<Rightarrow> string \<Rightarrow> int \<Rightarrow> cart reply \<times> db" where
  \<comment> \<open>\<open>new_id\<close> is the \<open>_id\<close> Mongoose gives a pushed subdocument\<close>
  "post_cart d user_id new_id productId quantity =
    (let errors = (if productId = [] then [''Product ID is required''] else [])
                @ (if quantity < 1 then [''Quantity must be at least 1''] else [])
     in if errors \<noteq> [] then (Errors 400 errors, d)
     else
       (case products d productId of
          None \<Rightarrow> (Message 404 ''Product not found'', d)
        | Some product \<Rightarrow>
            if p_status product \<noteq> ''available'' then (Message 400 ''Product is not available'', d)
            else if p_quantity product < of_int quantity
            then (Message 400 ''Not enough stock available'', d)
            else
              let cart = (case carts d user_id of
                            None \<Rightarrow> \<lparr>c_items = [], c_total = 0\<rparr>
                          | Some c \<Rightarrow> c);
                  items' = (case findIndex (\<lambda>item. ci_product item = productId) (c_items cart) of
                              Some itemIndex \<Rightarrow>
                                (c_items cart)[itemIndex :=
                                   (c_items cart ! itemIndex)\<lparr>ci_quantity := quantity\<rparr>]
                            | None \<Rightarrow>
                                c_items cart @
                                  [\<lparr>ci_id = new_id, ci_product = productId, ci_quantity = quantity\<rparr>]);
                  saved = cart_save d user_id (cart\<lparr>c_items := items'\<rparr>)
              in (Json 200 saved, d\<lparr>carts := (carts d)(user_id \<mapsto> saved)\<rparr>)))"

subsection \<open>PUT /api/cart/:itemId\<close>

definition put_cart_item :: "db \<Rightarrow> string \<Rightarrow> string \<Rightarrow> int \<Rightarrow> cart reply \<times> db" where
  "put_cart_item d user_id itemId quantity =
    (if quantity < 1 then (Errors 400 [''Quantity must be at least 1''], d)
     else
       (case carts d user_id of
          None \<Rightarrow> (Message 404 ''Cart not found'', d)
        | Some cart \<Rightarrow>
            (case findIndex (\<lambda>item. ci_id item = itemId) (c_items cart) of
               None \<Rightarrow> (Message 404 ''Item not found in cart'', d)
             | Some i \<Rightarrow>
                 (case products d (ci_product (c_items cart ! i)) of
                    None \<Rightarrow> (Message 404 ''Product no longer exists'', d)
                  | Some product \<Rightarrow>
                      if p_status product \<noteq> ''available''
                      then (Message 400 ''Product is not available'', d)
                      else if p_quantity product < of_int quantity
                      then (Message 400 ''Not enough stock available'', d)
                      else
                        let saved = cart_save d user_id
                              (cart\<lparr>c_items := (c_items cart)[i :=
                                  (c_items cart ! i)\<lparr>ci_quantity := quantity\<rparr>]\<rparr>)
                        in (Json 200 saved, d\<lparr>carts := (carts d)(user_id \<mapsto> saved)\<rparr>)))))"

subsection \<open>DELETE /api/cart/:itemId\<close>

definition removeItem :: "string \<Rightarrow> cart \<Rightarrow> cart" where
  \<comment> \<open>cartSchema.methods.removeItem, before its \<open>this.save()\<close>\<close>
  "removeItem itemId this =
     this\<lparr>c_items := filter (\<lambda>item. ci_id item \<noteq> itemId) (c_items this)\<rparr>"

definition delete_cart_item :: "db \<Rightarrow> string \<Rightarrow> string \<Rightarrow> cart reply \<times> db" where
  "delete_cart_item d user_id itemId =
    (case carts d user_id of
       None \<Rightarrow> (Message 404 ''Cart not found'', d)
     | Some cart \<Rightarrow>
         let saved = cart_save d user_id (removeItem itemId cart)
         in (Json 200 saved, d\<lparr>carts := (carts d)(user_id \<mapsto> saved)\<rparr>))"

section \<open>Checkout and direct order creation (src/unnamed/part_000)\<close>

text \<open>
  How a loop over the items ends: it runs through, a \<open>return res.status(n).json({ message })\<close>
  leaves the handler, with a fixed message or with one built by a template literal, or a
  call throws into the handler's catch.
\<close>

datatype exit = Completed | Returned nat string | ReturnedTemplate nat "piece list" | Thrown

text \<open>
  What became of the MongoDB transaction the checkout handler starts. The early returns
  neither commit nor abort it: its writes are never committed and the server discards
  them when the transaction expires.
\<close>

datatype txn = Committed | Aborted | LeftOpen

record checkout_body =
  paymentMethod :: "string option"
  shippingDetails :: "shipping_details option"
  order_notes :: "string option"

text \<open>
  \<open>itemsByFarmer\<close>: an object keyed by farmer id, enumerated by \<open>for ... in\<close> in insertion
  order (the keys are ObjectId strings, never array indices), so an association list
  extended at the end.
\<close>

definition push_item ::
  "(string \<times> order_item list) list \<Rightarrow> string \<Rightarrow> order_item \<Rightarrow> (string \<times> order_item list) list" where
  "push_item itemsByFarmer farmerId it =
     (if map_of itemsByFarmer farmerId = None
      then itemsByFarmer @ [(farmerId, [it])]
      else map (\<lambda>(k, v). if k = farmerId then (k, v @ [it]) else (k, v)) itemsByFarmer)"

text \<open>
  The first loop of checkout. \<open>ps\<close> is the products as the transaction sees them: the
  populated documents (one shared document per product id) with the saves made so far.
  The result carries that view at the loop's exit. The message of the 400 is the template
  \<open>Insufficient quantity for ${product.name}. Available: ${product.quantity}, Requested:
  ${cartItem.quantity}\<close>.
\<close>

fun group_items ::
  "(string \<rightharpoonup> product) \<Rightarrow> cart_item list \<Rightarrow> (string \<times> order_item list) list
     \<Rightarrow> exit \<times> (string \<rightharpoonup> product) \<times> (string \<times> order_item list) list" where
  "group_items ps [] itemsByFarmer = (Completed, ps, itemsByFarmer)"
| "group_items ps (cartItem # rest) itemsByFarmer =
     (case ps (ci_product cartItem) of
        None \<Rightarrow> (Returned 404 ''Product not found'', ps, itemsByFarmer)
      | Some product \<Rightarrow>
          if p_quantity product < of_int (ci_quantity cartItem)
          then (ReturnedTemplate 400
                  [Literal ''Insufficient quantity for '', String_value (p_name product),
                   Literal ''. Available: '', Number_value (p_quantity product),
                   Literal '', Requested: '', Number_value (of_int (ci_quantity cartItem))],
                ps, itemsByFarmer)
          else
            let grouped = push_item itemsByFarmer (p_farmer product)
                  \<lparr>oi_product = ci_product cartItem, oi_quantity = of_int (ci_quantity cartItem),
                   oi_price = p_price product, oi_name = p_name product\<rparr>
            in (case product_save
                       (product\<lparr>p_quantity :=
                          fl (p_quantity product - of_int (ci_quantity cartItem))\<rparr>) of
                  None \<Rightarrow> (Thrown, ps, grouped)
                | Some saved \<Rightarrow> group_items (ps(ci_product cartItem \<mapsto> saved)) rest grouped))"

definition farmer_total :: "order_item list \<Rightarrow> rat" where
  \<comment> \<open>\<open>farmerItems.reduce((total, item) => total + (item.price * item.quantity), 0)\<close>\<close>
  "farmer_total farmerItems =
     foldl (\<lambda>tot item. fl (tot + fl (oi_price item * oi_quantity item))) 0 farmerItems"

definition make_order :: "string \<Rightarrow> checkout_body \<Rightarrow> string \<times> order_item list \<Rightarrow> order" where
  "make_order user_id body entry =
     (case entry of (farmerId, farmerItems) \<Rightarrow>
        \<lparr>o_consumer = user_id, o_farmer = Some farmerId, o_items = farmerItems,
         o_totalAmount = farmer_total farmerItems,
         o_paymentMethod = paymentMethod body, o_shippingDetails = shippingDetails body,
         o_notes = order_notes body, o_status = initial_status, o_cancelReason = None\<rparr>)"

text \<open>The second loop: one order per key; a save the schema rejects throws.\<close>

fun save_orders ::
  "(order \<Rightarrow> bool) \<Rightarrow> string \<Rightarrow> checkout_body \<Rightarrow> (string \<times> order_item list) list
     \<Rightarrow> order list \<Rightarrow> order list option" where
  "save_orders accepts user_id body [] created = Some created"
| "save_orders accepts user_id body (entry # rest) created =
     (let order = make_order user_id body entry
      in if accepts order then save_orders accepts user_id body rest (created @ [order])
         else None)"

text \<open>
  POST /api/orders/checkout. The result is the reply, the committed database, and the
  state of the transaction. The cart's pre-save hook reads outside the session, that is,
  the database as it was before the commit.
\<close>

definition checkout ::
  "(order \<Rightarrow> bool) \<Rightarrow> db \<Rightarrow> string \<Rightarrow> checkout_body \<Rightarrow> order list reply \<times> db \<times> txn" where
  "checkout accepts d user_id body =
    (if \<not> truthy (paymentMethod body)
     then (Message 400 ''Payment method is required'', d, LeftOpen)
     else if (case shippingDetails body of None \<Rightarrow> True | Some sd \<Rightarrow> \<not> truthy (address sd))
     then (Message 400 ''Shipping details are required'', d, LeftOpen)
     else
       (case carts d user_id of
          None \<Rightarrow> (Message 400 ''Your cart is empty'', d, LeftOpen)
        | Some cart \<Rightarrow>
            if c_items cart = [] then (Message 400 ''Your cart is empty'', d, LeftOpen)
            else
              (case group_items (products d) (c_items cart) [] of
                 (Returned n m, ps', itemsByFarmer) \<Rightarrow> (Message n m, d, LeftOpen)
               | (ReturnedTemplate n pieces, ps', itemsByFarmer) \<Rightarrow>
                   (Template n pieces, d, LeftOpen)
               | (Thrown, ps', itemsByFarmer) \<Rightarrow> (Message 500 ''Server Error'', d, Aborted)
               | (Completed, ps', itemsByFarmer) \<Rightarrow>
                   (case save_orders accepts user_id body itemsByFarmer [] of
                      None \<Rightarrow> (Message 500 ''Server Error'', d, Aborted)
                    | Some created \<Rightarrow>
                        (Json 201 created,
                         \<lparr>products = ps',
                          carts = (carts d)(user_id \<mapsto> cart_save d user_id (cart\<lparr>c_items := []\<rparr>)),
                          orders = orders d @ created\<rparr>,
                         Committed)))))"

subsection \<open>POST /api/orders\<close>

text \<open>
  What a client can send as an item's \<open>product\<close>: a string, or an object, of which the
  properties \<open>_id\<close> and \<open>farmer\<close> matter (each may be missing). \<open>Product.findById(value)\<close>
  casts the value to an ObjectId: a string to the id it spells, an object to its \<open>_id\<close>; a
  value that does not cast makes the query throw. An object without \<open>_id\<close> also stands for
  any other value that does not cast.
\<close>

datatype product_ref = IdString string | IdObject "string option" "string option"

definition cast_ObjectId :: "product_ref \<Rightarrow> string option" where
  "cast_ObjectId v = (case v of IdString s \<Rightarrow> Some s | IdObject oid farmer \<Rightarrow> oid)"

definition farmer_property :: "product_ref \<Rightarrow> string option" where
  \<comment> \<open>\<open>value.farmer\<close>: a string has no such property\<close>
  "farmer_property v = (case v of IdString s \<Rightarrow> None | IdObject oid farmer \<Rightarrow> farmer)"

definition interpolated :: "product_ref \<Rightarrow> string" where
  \<comment> \<open>\<open>`${value}`\<close>: a string as it is, an object through \<open>Object.prototype.toString\<close>\<close>
  "interpolated v = (case v of IdString s \<Rightarrow> s | IdObject oid farmer \<Rightarrow> ''[object Object]'')"

record req_item =
  ri_product :: product_ref
  ri_quantity :: rat

record order_body =
  ob_items :: "req_item list"
  ob_paymentMethod :: "string option"
  ob_shippingDetails :: "shipping_details option"
  ob_notes :: "string option"

definition payment_methods :: "string list" where
  "payment_methods = [''cash-on-delivery'', ''online'', ''bank_transfer'']"

definition shipping_field_missing ::
  "shipping_details option \<Rightarrow> (shipping_details \<Rightarrow> string option) \<Rightarrow> bool" where
  "shipping_field_missing sd field = (case sd of None \<Rightarrow> True | Some x \<Rightarrow> \<not> truthy (field x))"

definition order_body_errors :: "order_body \<Rightarrow> string list" where
  \<comment> \<open>the express-validator chain of the route, one message per failed check; that
      \<open>items\<close> is an array and each quantity numeric is in the types. \<open>not().isEmpty()\<close>
      fails for the empty string and passes every object\<close>
  "order_body_errors body =
     concat (map (\<lambda>item. if ri_product item = IdString [] then [''Product ID is required''] else [])
               (ob_items body))
     @ (if (case ob_paymentMethod body of None \<Rightarrow> False | Some m \<Rightarrow> m \<in> set payment_methods)
        then [] else [''Payment method is required''])
     @ (if ob_shippingDetails body = None then [''Shipping details are required''] else [])
     @ (if shipping_field_missing (ob_shippingDetails body) fullName
        then [''Full name is required''] else [])
     @ (if shipping_field_missing (ob_shippingDetails body) address
        then [''Address is required''] else [])
     @ (if shipping_field_missing (ob_shippingDetails body) city
        then [''City is required''] else [])
     @ (if shipping_field_missing (ob_shippingDetails body) state
        then [''State is required''] else [])
     @ (if shipping_field_missing (ob_shippingDetails body) postalCode
        then [''Postal code is required''] else [])
     @ (if shipping_field_missing (ob_shippingDetails body) phoneNumber
        then [''Phone number is required''] else [])"

text \<open>
  The entries of \<open>validatedItems\<close>: \<open>product\<close> is the value of the request, as it came.
\<close>

record validated_item =
  vi_product :: product_ref
  vi_quantity :: rat
  vi_price :: rat
  vi_name :: string

text \<open>
  The loop of the direct route. There is no transaction: every \<open>product.save()\<close> is
  written at once, so \<open>ps\<close> is the stored products.
\<close>

fun validate_items ::
  "(string \<rightharpoonup> product) \<Rightarrow> req_item list \<Rightarrow> validated_item list \<Rightarrow> rat
     \<Rightarrow> exit \<times> (string \<rightharpoonup> product) \<times> validated_item list \<times> rat" where
  "validate_items ps [] validatedItems totalAmount = (Completed, ps, validatedItems, totalAmount)"
| "validate_items ps (item # rest) validatedItems totalAmount =
     (case cast_ObjectId (ri_product item) of
        None \<Rightarrow> (Thrown, ps, validatedItems, totalAmount)
      | Some pid \<Rightarrow>
          (case ps pid of
             None \<Rightarrow> (Returned 404 (''Product '' @ interpolated (ri_product item) @ '' not found''),
                      ps, validatedItems, totalAmount)
           | Some product \<Rightarrow>
               if p_quantity product < ri_quantity item
               then (Returned 400 (''Insufficient quantity for '' @ p_name product),
                     ps, validatedItems, totalAmount)
               else
                 let validatedItems' = validatedItems @
                       [\<lparr>vi_product = ri_product item, vi_quantity = ri_quantity item,
                         vi_price = p_price product, vi_name = p_name product\<rparr>];
                     totalAmount' = fl (totalAmount + fl (p_price product * ri_quantity item))
                 in (case product_save
                            (product\<lparr>p_quantity := fl (p_quantity product - ri_quantity item)\<rparr>) of
                       None \<Rightarrow> (Thrown, ps, validatedItems', totalAmount')
                     | Some saved \<Rightarrow>
                         validate_items (ps(pid \<mapsto> saved)) rest validatedItems' totalAmount')))"

fun order_items :: "validated_item list \<Rightarrow> order_item list option" where
  \<comment> \<open>Modelled from the spec: the Order schema (models/Order.js) is not among the sources;
      in the spec an order item holds the product's id next to quantity, price and name, so
      the value given as \<open>product\<close> is cast to an ObjectId, as in a query. A value that
      does not cast fails the document, and its save throws.\<close>
  "order_items [] = Some []"
| "order_items (v # vs) =
     (case cast_ObjectId (vi_product v) of
        None \<Rightarrow> None
      | Some pid \<Rightarrow>
          map_option
            ((#) \<lparr>oi_product = pid, oi_quantity = vi_quantity v, oi_price = vi_price v,
                  oi_name = vi_name v\<rparr>)
            (order_items vs))"

definition new_direct_order ::
  "string \<Rightarrow> order_body \<Rightarrow> validated_item \<Rightarrow> order_item list \<Rightarrow> rat \<Rightarrow> order" where
  \<comment> \<open>\<open>new Order({...})\<close> of the direct route; \<open>first\<close> is \<open>validatedItems[0]\<close>, and the
      farmer is \<open>validatedItems[0].product.farmer\<close>\<close>
  "new_direct_order user_id body first its totalAmount =
     \<lparr>o_consumer = user_id, o_farmer = farmer_property (vi_product first),
      o_items = its, o_totalAmount = totalAmount,
      o_paymentMethod = ob_paymentMethod body, o_shippingDetails = ob_shippingDetails body,
      o_notes = ob_notes body, o_status = initial_status, o_cancelReason = None\<rparr>"

definition create_order :: "(order \<Rightarrow> bool) \<Rightarrow> db \<Rightarrow> string \<Rightarrow> order_body \<Rightarrow> order reply \<times> db" where
  "create_order accepts d user_id body =
    (let errors = order_body_errors body
     in if errors \<noteq> [] then (Errors 400 errors, d)
     else
       (case validate_items (products d) (ob_items body) [] 0 of
          (Returned n m, ps', validatedItems, totalAmount) \<Rightarrow> (Message n m, d\<lparr>products := ps'\<rparr>)
        | (ReturnedTemplate n pieces, ps', validatedItems, totalAmount) \<Rightarrow>
            (Template n pieces, d\<lparr>products := ps'\<rparr>)
        | (Thrown, ps', validatedItems, totalAmount) \<Rightarrow>
            (Message 500 ''Server Error'', d\<lparr>products := ps'\<rparr>)
        | (Completed, ps', validatedItems, totalAmount) \<Rightarrow>
            (case validatedItems of
               [] \<Rightarrow> (Message 500 ''Server Error'', d\<lparr>products := ps'\<rparr>)
             | first # _ \<Rightarrow>
                 (case order_items validatedItems of
                    None \<Rightarrow> (Message 500 ''Server Error'', d\<lparr>products := ps'\<rparr>)
                  | Some its \<Rightarrow>
                      let order = new_direct_order user_id body first its totalAmount
                      in if accepts order
                         then (Json 201 order, d\<lparr>products := ps', orders := orders d @ [order]\<rparr>)
                         else (Message 500 ''Server Error'', d\<lparr>products := ps'\<rparr>)))))"

section \<open>Product routes\<close>

text \<open>
  The product routes; in the sources their text follows the prediction routes in
  src/routes/predictions.js.
\<close>

record product_form =
  pf_name :: string
  pf_price :: rat
  pf_quantity :: rat

definition post_product ::
  "(string \<rightharpoonup> product) \<Rightarrow> string \<Rightarrow> string \<Rightarrow> product_form
     \<Rightarrow> product reply \<times> (string \<rightharpoonup> product)" where
  \<comment> \<open>POST /api/products: \<open>new Product({...})\<close> with the schema's default status, then \<open>save()\<close>;
      \<open>new_id\<close> is the new document's \<open>_id\<close>. Images and the descriptive fields are left out.\<close>
  "post_product ps user_id new_id form =
    (if pf_name form = [] then (Errors 400 [''Name is required''], ps)
     else
       (case product_save \<lparr>p_farmer = user_id, p_name = pf_name form, p_price = pf_price form,
                            p_quantity = pf_quantity form, p_status = ''available''\<rparr> of
          None \<Rightarrow> (Message 500 ''Server Error'', ps)
        | Some saved \<Rightarrow> (Json 201 saved, ps(new_id \<mapsto> saved))))"

record product_update =
  pu_name :: "string option"
  pu_price :: "rat option"
  pu_quantity :: "rat option"
  pu_status :: "string option"

definition apply_set :: "product_update \<Rightarrow> product \<Rightarrow> product" where
  \<comment> \<open>\<open>{ $set: updateData }\<close>: every path of the body that the schema has is written as given\<close>
  "apply_set u p =
     p\<lparr>p_name := (case pu_name u of None \<Rightarrow> p_name p | Some x \<Rightarrow> x),
       p_price := (case pu_price u of None \<Rightarrow> p_price p | Some x \<Rightarrow> x),
       p_quantity := (case pu_quantity u of None \<Rightarrow> p_quantity p | Some x \<Rightarrow> x),
       p_status := (case pu_status u of None \<Rightarrow> p_status p | Some x \<Rightarrow> x)\<rparr>"

definition put_product ::
  "(string \<rightharpoonup> product) \<Rightarrow> string \<Rightarrow> string \<Rightarrow> product_update
     \<Rightarrow> product reply \<times> (string \<rightharpoonup> product)" where
  \<comment> \<open>PUT /api/products/:id. \<open>Product.findByIdAndUpdate(id, { $set }, { new: true })\<close> writes
      straight to the collection: no \<open>save()\<close>, so neither the pre-save hook nor (without
      \<open>runValidators\<close>) the schema's validators run.\<close>
  "put_product ps user_id pid u =
    (if pu_name u = Some [] then (Errors 400 [''Name is required''], ps)
     else
       (case ps pid of
          None \<Rightarrow> (Message 404 ''Product not found'', ps)
        | Some product \<Rightarrow>
            if p_farmer product \<noteq> user_id then (Message 401 ''Not authorized'', ps)
            else (Json 200 (apply_set u product), ps(pid \<mapsto> apply_set u product))))"

definition status_consistent :: "product \<Rightarrow> bool" where
  "status_consistent p =
     (0 \<le> p_quantity p
      \<and> (p_status p = ''available'') = (0 < p_quantity p)
      \<and> (p_status p = ''sold_out'') = (p_quantity p = 0))"

section \<open>Prediction routes (routes/predictions.js, routes/yield-predictions.js)\<close>

text \<open>
  The call to the external service is an input of the model: either the response data or
  the error axios throws, with a response (\<open>err.response\<close>: status and body) or without one
  (\<open>err.code\<close>: ECONNREFUSED when the connection is refused, ECONNABORTED when the 15 s
  timeout expires). \<open>Math.random()\<close> is an input too: \<open>rnd n\<close> is the value of the n-th call,
  in [0, 1). \<open>isURL\<close> is the validator library's test.
\<close>

datatype api_failure = ErrorResponse nat string | NoResponse string

record flask_disease =
  fd_crop :: string
  fd_prediction :: string
  fd_confidence :: rat
  fd_is_mock :: bool

text \<open>The paths of models/Prediction.js; the schema has no \<open>isMock\<close> path.\<close>

record prediction =
  pr_farmerId :: string
  pr_imageUrl :: string
  pr_prediction :: string
  pr_confidence :: rat

record prediction_fields =
  nf_farmerId :: string
  nf_imageUrl :: string
  nf_prediction :: string
  nf_confidence :: rat
  nf_isMock :: bool

definition new_Prediction :: "prediction_fields \<Rightarrow> prediction" where
  \<comment> \<open>\<open>new Prediction({...})\<close>: a strict schema keeps the paths it declares and drops the rest\<close>
  "new_Prediction given =
     \<lparr>pr_farmerId = nf_farmerId given, pr_imageUrl = nf_imageUrl given,
      pr_prediction = nf_prediction given, pr_confidence = nf_confidence given\<rparr>"

definition prediction_save :: "prediction \<Rightarrow> prediction option" where
  \<comment> \<open>the schema's validators: required strings, confidence within 0..1\<close>
  "prediction_save doc =
     (if pr_farmerId doc \<noteq> [] \<and> pr_imageUrl doc \<noteq> [] \<and> pr_prediction doc \<noteq> []
         \<and> 0 \<le> pr_confidence doc \<and> pr_confidence doc \<le> 1
      then Some doc else None)"

definition cropTypes :: "string list" where
  "cropTypes = [''Rice'', ''Wheat'', ''Maize'', ''Tomato'', ''Potato'', ''Cotton'', ''Sugarcane'']"

definition diseaseKeys :: "string list" where
  \<comment> \<open>\<open>Object.keys(cropDiseases)\<close> without Healthy, in insertion order\<close>
  "diseaseKeys = [''Bacterial Leaf Blight'', ''Blast Disease'', ''Brown Spot'', ''Downy Mildew'',
     ''Powdery Mildew'', ''Rust'', ''Septoria Leaf Spot'', ''Verticillium Wilt'', ''Fusarium Wilt'']"

definition generateMockDiseasePrediction :: "(nat \<Rightarrow> rat) \<Rightarrow> string \<times> rat" where
  \<comment> \<open>with every draw in [0, 1) both indices are within their lists\<close>
  "generateMockDiseasePrediction rnd =
     (let cropType = cropTypes ! nat \<lfloor>rnd 0 * 7\<rfloor>;
          isHealthy = (rnd 1 > 7 / 10)
      in if isHealthy then (cropType @ '' - '' @ ''Healthy'', 85 / 100 + rnd 2 * (1 / 10))
         else (cropType @ '' - '' @ diseaseKeys ! nat \<lfloor>rnd 2 * 9\<rfloor>, 7 / 10 + rnd 3 * (2 / 10)))"

definition post_prediction ::
  "bool \<Rightarrow> (string \<Rightarrow> bool) \<Rightarrow> (nat \<Rightarrow> rat) \<Rightarrow> prediction list \<Rightarrow> string \<Rightarrow> string
     \<Rightarrow> api_failure + flask_disease \<Rightarrow> prediction reply \<times> prediction list" where
  \<comment> \<open>POST /api/predictions; \<open>use_mock\<close> is the constant USE_MOCK_API\<close>
  "post_prediction use_mock isURL rnd history user_id imageUrl flask =
    (if \<not> isURL imageUrl then (Errors 400 [''Image URL is required''], history)
     else
       (case (case flask of
                Inr data \<Rightarrow>
                  Inr (fd_crop data @ '' - '' @ fd_prediction data, fd_confidence data,
                       fd_is_mock data)
              | Inl apiError \<Rightarrow>
                  if use_mock
                  then (case generateMockDiseasePrediction rnd of
                          (p, c) \<Rightarrow> Inr (p, c, True))
                  else Inl apiError) of
          Inr (predicted, conf, isMockPrediction) \<Rightarrow>
            (case prediction_save
                    (new_Prediction \<lparr>nf_farmerId = user_id, nf_imageUrl = imageUrl,
                       nf_prediction = predicted, nf_confidence = conf,
                       nf_isMock = isMockPrediction\<rparr>) of
               None \<Rightarrow> (Message 500 ''Server Error'', history)
             | Some predictionDoc \<Rightarrow> (Json 200 predictionDoc, history @ [predictionDoc]))
        | Inl (ErrorResponse status data) \<Rightarrow> (Message status ''AI Service Error'', history)
        | Inl (NoResponse code) \<Rightarrow>
            if code = ''ECONNREFUSED'' then (Message 503 ''AI Service Unavailable'', history)
            else (Message 500 ''Server Error'', history)))"

record weather =
  temperature :: rat
  humidity :: rat
  rainfall :: rat

record yield_result =
  yr_predicted_yield_kg :: rat
  yr_suggested_crops :: "string list"
  yr_confidence :: rat
  yr_weather :: "weather option"

record yield_request =
  latitude :: rat
  longitude :: rat
  crop :: string
  season :: string
  area_of_land :: rat
  soil_type :: string

text \<open>The paths of models/YieldPrediction.js, \<open>isMock\<close> among them.\<close>

record yield_prediction =
  yp_farmerId :: string
  yp_request :: yield_request
  yp_result :: yield_result
  yp_isMock :: bool

definition yield_prediction_save :: "yield_prediction \<Rightarrow> yield_prediction option" where
  "yield_prediction_save doc =
     (if yp_farmerId doc \<noteq> [] \<and> crop (yp_request doc) \<noteq> [] \<and> soil_type (yp_request doc) \<noteq> []
         \<and> season (yp_request doc) \<in> set [''Rabi'', ''Kharif'', ''Zaid'']
         \<and> 0 \<le> yr_confidence (yp_result doc) \<and> yr_confidence (yp_result doc) \<le> 1
      then Some doc else None)"

definition yield_request_errors :: "yield_request \<Rightarrow> string list" where
  "yield_request_errors req =
     (if crop req = [] then [''Crop name is required''] else [])
     @ (if season req \<in> set [''Rabi'', ''Kharif'', ''Zaid''] then [] else [''Season is required''])
     @ (if soil_type req = [] then [''Soil type is required''] else [])"

definition post_yield_prediction ::
  "bool \<Rightarrow> yield_result \<Rightarrow> yield_prediction list \<Rightarrow> string \<Rightarrow> yield_request
     \<Rightarrow> api_failure + (yield_result \<times> bool) \<Rightarrow> yield_prediction reply \<times> yield_prediction list" where
  \<comment> \<open>POST /api/yield-predictions. \<open>mockResult\<close> is what \<open>getWeatherData\<close> and
      \<open>generateMockPrediction\<close> (both driven by \<open>Math.random\<close>) give for this request; the
      service's answer comes with its \<open>is_mock === true\<close>.\<close>
  "post_yield_prediction use_mock mockResult history user_id req flask =
    (let errors = yield_request_errors req
     in if errors \<noteq> [] then (Errors 400 errors, history)
     else
       (case (case flask of
                Inr (predictionResult, is_mock) \<Rightarrow> Inr (predictionResult, is_mock)
              | Inl apiError \<Rightarrow> if use_mock then Inr (mockResult, True) else Inl apiError) of
          Inr (predictionResult, isMockPrediction) \<Rightarrow>
            (case yield_prediction_save
                    \<lparr>yp_farmerId = user_id, yp_request = req, yp_result = predictionResult,
                     yp_isMock = isMockPrediction\<rparr> of
               None \<Rightarrow> (Message 500 ''Server Error'', history)
             | Some yieldPrediction \<Rightarrow> (Json 200 yieldPrediction, history @ [yieldPrediction]))
        | Inl (ErrorResponse status data) \<Rightarrow> (Message status ''AI Service Error'', history)
        | Inl (NoResponse code) \<Rightarrow>
            if code = ''ECONNREFUSED'' then (Message 503 ''AI Service Unavailable'', history)
            else (Message 500 ''Server Error'', history)))"

section \<open>Notions used to state the properties\<close>

definition line_farmer :: "(string \<rightharpoonup> product) \<Rightarrow> cart_item \<Rightarrow> string option" where
  \<comment> \<open>the farmer owning the product of a cart line\<close>
  "line_farmer ps ci = map_option p_farmer (ps (ci_product ci))"

definition line_amount :: "(string \<rightharpoonup> product) \<Rightarrow> cart_item \<Rightarrow> rat" where
  \<comment> \<open>price times quantity of a cart line, exactly\<close>
  "line_amount ps ci =
     (case ps (ci_product ci) of None \<Rightarrow> 0 | Some p \<Rightarrow> p_price p * of_int (ci_quantity ci))"

definition snapshot :: "(string \<rightharpoonup> product) \<Rightarrow> cart_item \<Rightarrow> order_item option" where
  \<comment> \<open>the order item that records a cart line: product id, quantity, price and name\<close>
  "snapshot ps ci =
     map_option (\<lambda>p. \<lparr>oi_product = ci_product ci, oi_quantity = of_int (ci_quantity ci),
                       oi_price = p_price p, oi_name = p_name p\<rparr>) (ps (ci_product ci))"

definition amount :: "order_item \<Rightarrow> rat" where
  \<comment> \<open>price times quantity of an order item, exactly\<close>
  "amount it = oi_price it * oi_quantity it"

definition push_line ::
  "(string \<rightharpoonup> product) \<Rightarrow> (string \<times> order_item list) list \<Rightarrow> cart_item
     \<Rightarrow> (string \<times> order_item list) list" where
  \<comment> \<open>one round of the grouping loop, without the stock check and the save\<close>
  "push_line ps g ci =
     (case ps (ci_product ci) of
        None \<Rightarrow> g
      | Some p \<Rightarrow> push_item g (p_farmer p)
          \<lparr>oi_product = ci_product ci, oi_quantity = of_int (ci_quantity ci),
           oi_price = p_price p, oi_name = p_name p\<rparr>)"

definition planned_orders ::
  "string \<Rightarrow> checkout_body \<Rightarrow> (string \<rightharpoonup> product) \<Rightarrow> cart_item list \<Rightarrow> order list" where
  \<comment> \<open>the orders checkout builds for a cart, before the schema sees them\<close>
  "planned_orders user_id body ps items =
     map (make_order user_id body) (foldl (push_line ps) [] items)"

subsection \<open>A small database for the concrete instances\<close>

definition sample_products :: "string \<rightharpoonup> product" where
  "sample_products =
     [''pA'' \<mapsto> \<lparr>p_farmer = ''F1'', p_name = ''Tomato'', p_price = 10, p_quantity = 5,
                 p_status = ''available''\<rparr>,
      ''pB'' \<mapsto> \<lparr>p_farmer = ''F2'', p_name = ''Milk'', p_price = 5, p_quantity = 3,
                 p_status = ''available''\<rparr>,
      ''pC'' \<mapsto> \<lparr>p_farmer = ''F1'', p_name = ''Rice'', p_price = 7 / 2, p_quantity = 4,
                 p_status = ''available''\<rparr>]"

definition sample_cart :: cart where
  "sample_cart =
     \<lparr>c_items = [\<lparr>ci_id = ''i1'', ci_product = ''pA'', ci_quantity = 2\<rparr>,
                 \<lparr>ci_id = ''i2'', ci_product = ''pB'', ci_quantity = 1\<rparr>,
                 \<lparr>ci_id = ''i3'', ci_product = ''pC'', ci_quantity = 4\<rparr>],
      c_total = 0\<rparr>"

definition greedy_cart :: cart where
  "greedy_cart =
     \<lparr>c_items = [\<lparr>ci_id = ''i1'', ci_product = ''pA'', ci_quantity = 2\<rparr>,
                 \<lparr>ci_id = ''i3'', ci_product = ''pC'', ci_quantity = 5\<rparr>],
      c_total = 0\<rparr>"

definition sample_db :: db where
  "sample_db =
     \<lparr>products = sample_products,
      carts = [''C1'' \<mapsto> sample_cart, ''C2'' \<mapsto> greedy_cart],
      orders = []\<rparr>"

text \<open>
  A cart that holds the same product on two lines, each within the stock of 5; a cart whose
  first line names a product that is no longer stored; and products whose prices are the
  doubles of 0.1, 0.2 and 0.3.
\<close>

definition twice_db :: db where
  "twice_db =
     \<lparr>products = sample_products,
      carts = [''C1'' \<mapsto>
        \<lparr>c_items = [\<lparr>ci_id = ''i1'', ci_product = ''pA'', ci_quantity = 3\<rparr>,
                    \<lparr>ci_id = ''i2'', ci_product = ''pA'', ci_quantity = 3\<rparr>],
         c_total = 0\<rparr>],
      orders = []\<rparr>"


definition cents_cart :: cart where
  "cents_cart =
     \<lparr>c_items = [\<lparr>ci_id = ''i1'', ci_product = ''pX'', ci_quantity = 1\<rparr>,
                 \<lparr>ci_id = ''i2'', ci_product = ''pY'', ci_quantity = 1\<rparr>,
                 \<lparr>ci_id = ''i3'', ci_product = ''pZ'', ci_quantity = 2\<rparr>],
      c_total = 0\<rparr>"

definition cents_products :: "string \<rightharpoonup> product" where
  "cents_products =
     [''pX'' \<mapsto> \<lparr>p_farmer = ''F1'', p_name = ''Salt'', p_price = fl (1 / 10), p_quantity = 9,
                 p_status = ''available''\<rparr>,
      ''pY'' \<mapsto> \<lparr>p_farmer = ''F2'', p_name = ''Milk'', p_price = fl (1 / 5), p_quantity = 9,
                 p_status = ''available''\<rparr>,
      ''pZ'' \<mapsto> \<lparr>p_farmer = ''F1'', p_name = ''Rice'', p_price = fl (3 / 10), p_quantity = 9,
                 p_status = ''available''\<rparr>]"

definition cents_db :: db where
  "cents_db = \<lparr>products = cents_products, carts = [''C1'' \<mapsto> cents_cart], orders = []\<rparr>"

definition sample_shipping :: shipping_details where
  "sample_shipping =
     \<lparr>fullName = Some ''A Buyer'', address = Some ''1 Main St'', city = Some ''Pune'',
      state = Some ''MH'', postalCode = Some ''411001'', phoneNumber = Some ''555''\<rparr>"

definition sample_body :: checkout_body where
  "sample_body =
     \<lparr>paymentMethod = Some ''online'', shippingDetails = Some sample_shipping,
      order_notes = None\<rparr>"

definition address_only :: shipping_details where
  "address_only =
     \<lparr>fullName = None, address = Some ''1 Main St'', city = None,
      state = None, postalCode = None, phoneNumber = None\<rparr>"

definition incomplete_body :: checkout_body where
  "incomplete_body =
     \<lparr>paymentMethod = Some ''bitcoin'', shippingDetails = Some address_only,
      order_notes = None\<rparr>"

definition sample_order_body :: order_body where
  "sample_order_body =
     \<lparr>ob_items = [\<lparr>ri_product = IdString ''pA'', ri_quantity = 2\<rparr>,
                  \<lparr>ri_product = IdString ''pB'', ri_quantity = 1\<rparr>],
      ob_paymentMethod = Some ''online'', ob_shippingDetails = Some sample_shipping,
      ob_notes = None\<rparr>"

definition object_order_body :: order_body where
  \<comment> \<open>the first item's product is the object \<open>{ _id: 'pA', farmer: 'F2' }\<close>\<close>
  "object_order_body =
     \<lparr>ob_items = [\<lparr>ri_product = IdObject (Some ''pA'') (Some ''F2''), ri_quantity = 2\<rparr>,
                  \<lparr>ri_product = IdString ''pB'', ri_quantity = 1\<rparr>],
      ob_paymentMethod = Some ''online'', ob_shippingDetails = Some sample_shipping,
      ob_notes = None\<rparr>"

definition sample_yield_request :: yield_request where
  "sample_yield_request =
     \<lparr>latitude = 18, longitude = 73, crop = ''Rice'', season = ''Kharif'',
      area_of_land = 10, soil_type = ''Loamy''\<rparr>"

definition sample_mock_result :: yield_result where
  "sample_mock_result =
     \<lparr>yr_predicted_yield_kg = 4800, yr_suggested_crops = [''Wheat'', ''Maize''],
      yr_confidence = 4 / 5,
      yr_weather = Some \<lparr>temperature = 25, humidity = 60, rainfall = 100\<rparr>\<rparr>"

definition sample_rnd :: "nat \<Rightarrow> rat" where
  "sample_rnd n = (if n = 0 then 0 else if n = 1 then 1 / 2 else if n = 2 then 5 / 9 else 1 / 2)"

section \<open>Numbers: where the arithmetic is exact\<close>

text \<open>
  Rounding keeps a result that is a natural number up to \<open>2 ^ 53\<close>, and never turns a
  non-negative result negative.
\<close>

lemma pow2_pos: "0 < pow2 e"
  by (simp add: pow2_def)

lemma pow2_nat: "pow2 (int k) = 2 ^ k"
  by (simp add: pow2_def)

lemma pow2_mono: "a \<le> b \<Longrightarrow> pow2 a \<le> pow2 b"
proof -
  assume ab: "a \<le> b"
  have eq: "pow2 e = 2 powi e" for e
    by (simp add: pow2_def power_int_def inverse_eq_divide power_one_over)
  show ?thesis
    unfolding eq using ab by (simp add: power_int_increasing)
qed

lemma blen_nonneg: "0 \<le> blen n"
  by (induction n rule: blen.induct) (subst blen.simps, simp)

lemma blen_upper: "0 \<le> n \<Longrightarrow> n < 2 ^ nat (blen n)"
proof (induction n rule: blen.induct)
  case (1 n)
  show ?case
  proof (cases "n \<le> 0")
    case True
    then show ?thesis using "1.prems" by (subst blen.simps) simp
  next
    case False
    then have h: "n div 2 < 2 ^ nat (blen (n div 2))" using "1.IH" by simp
    have b: "blen n = blen (n div 2) + 1" using False by (subst blen.simps) simp
    have "nat (blen (n div 2) + 1) = Suc (nat (blen (n div 2)))"
      using blen_nonneg [of "n div 2"] by simp
    then have "(2::int) ^ nat (blen n) = 2 * 2 ^ nat (blen (n div 2))" using b by simp
    moreover have "n < 2 * (n div 2 + 1)" by presburger
    ultimately show ?thesis using h by linarith
  qed
qed

lemma blen_lower: "1 \<le> n \<Longrightarrow> 2 ^ nat (blen n - 1) \<le> n"
proof (induction n rule: blen.induct)
  case (1 n)
  have pos: "\<not> n \<le> 0" using "1.prems" by simp
  have b: "blen n = blen (n div 2) + 1" using pos by (subst blen.simps) simp
  show ?case
  proof (cases "n div 2 = 0")
    case True
    then have "blen (n div 2) = 0" by (subst blen.simps) simp
    then show ?thesis using b "1.prems" by simp
  next
    case False
    then have ge: "1 \<le> n div 2" using "1.prems" by presburger
    then have h: "2 ^ nat (blen (n div 2) - 1) \<le> n div 2" using "1.IH" pos by simp
    have "1 \<le> blen (n div 2)"
    proof -
      have "blen (n div 2) = blen (n div 2 div 2) + 1" using ge by (subst blen.simps) simp
      then show ?thesis using blen_nonneg [of "n div 2 div 2"] by simp
    qed
    then have "nat (blen n - 1) = Suc (nat (blen (n div 2) - 1))" using b by simp
    then have "(2::int) ^ nat (blen n - 1) = 2 * 2 ^ nat (blen (n div 2) - 1)" by simp
    moreover have "2 * (n div 2) \<le> n" by presburger
    ultimately show ?thesis using h by linarith
  qed
qed

lemma ilog2_lower:
  assumes "0 < x"
  shows "pow2 (ilog2 x) \<le> x"
proof (cases "1 \<le> x")
  case True
  then have m: "1 \<le> \<lfloor>x\<rfloor>" by simp
  have "0 \<le> blen \<lfloor>x\<rfloor> - 1"
  proof -
    have "blen \<lfloor>x\<rfloor> = blen (\<lfloor>x\<rfloor> div 2) + 1" using m by (subst blen.simps) simp
    then show ?thesis using blen_nonneg [of "\<lfloor>x\<rfloor> div 2"] by simp
  qed
  then have "pow2 (ilog2 x) = 2 ^ nat (blen \<lfloor>x\<rfloor> - 1)"
    using True by (simp add: ilog2_def pow2_def)
  also have "\<dots> = of_int (2 ^ nat (blen \<lfloor>x\<rfloor> - 1))" by simp
  also have "\<dots> \<le> of_int \<lfloor>x\<rfloor>" using blen_lower [OF m] by (simp only: of_int_le_iff)
  also have "\<dots> \<le> x" by simp
  finally show ?thesis .
next
  case False
  let ?c = "\<lceil>1 / x\<rceil>"
  let ?b = "blen (?c - 1)"
  have "1 < 1 / x" using False assms by (simp add: field_simps)
  then have c2: "2 \<le> ?c" by (simp add: le_ceiling_iff)
  have "0 \<le> ?c - 1" using c2 by linarith
  then have "?c - 1 < 2 ^ nat ?b" by (rule blen_upper)
  then have "?c \<le> 2 ^ nat ?b" by simp
  then have "of_int ?c \<le> (of_int (2 ^ nat ?b) :: rat)" by (simp only: of_int_le_iff)
  then have cb: "of_int ?c \<le> (2 ^ nat ?b :: rat)" by simp
  have "1 / x \<le> of_int ?c" by (rule le_of_int_ceiling)
  from this cb have "1 / x \<le> 2 ^ nat ?b" by (rule order_trans)
  then have "1 / 2 ^ nat ?b \<le> x" using assms by (simp add: field_simps)
  moreover have "pow2 (ilog2 x) = 1 / 2 ^ nat ?b"
    using False blen_nonneg [of "?c - 1"] by (auto simp: ilog2_def pow2_def)
  ultimately show ?thesis by simp
qed

lemma round_half_even_of_int: "round_half_even (of_int k) = k"
  by (simp add: round_half_even_def)

lemma round_half_even_nonneg: "0 \<le> y \<Longrightarrow> 0 \<le> round_half_even y"
  by (auto simp: round_half_even_def Let_def)

lemma fl_nonneg: "0 \<le> x \<Longrightarrow> 0 \<le> fl x"
proof -
  assume x: "0 \<le> x"
  show ?thesis
  proof (cases "x = 0")
    case True
    then show ?thesis by (simp add: fl_def)
  next
    case False
    let ?e = "max (ilog2 \<bar>x\<bar> - 52) (- 1074)"
    have "0 \<le> \<bar>x\<bar> / pow2 ?e" using pow2_pos [of ?e] by simp
    then have "0 \<le> round_half_even (\<bar>x\<bar> / pow2 ?e)" by (rule round_half_even_nonneg)
    then have "0 \<le> of_int (round_half_even (\<bar>x\<bar> / pow2 ?e)) * pow2 ?e"
      using pow2_pos [of ?e] by simp
    then show ?thesis using x False by (simp add: fl_def Let_def)
  qed
qed

lemma fl_exact_int:
  assumes "0 \<le> n" and "of_int n \<le> (2::rat) ^ 53"
  shows "fl (of_int n) = of_int n"
proof (cases "n = 0")
  case True
  then show ?thesis by (simp add: fl_def)
next
  case False
  let ?x = "of_int n :: rat"
  have xpos: "0 < ?x" using assms(1) False by simp
  let ?L = "ilog2 ?x"
  let ?e = "max (?L - 52) (- 1074)"
  have low: "pow2 ?L \<le> ?x" by (rule ilog2_lower [OF xpos])
  have L53: "?L \<le> 53"
  proof (rule ccontr)
    assume "\<not> ?L \<le> 53"
    then have "54 \<le> ?L" by simp
    then have "pow2 54 \<le> pow2 ?L" by (rule pow2_mono)
    then have "pow2 54 \<le> (2::rat) ^ 53" using low assms(2) by linarith
    then show False by (simp add: pow2_def)
  qed
  have ex: "\<exists>k. ?x / pow2 ?e = of_int k"
  proof (cases "?e \<le> 0")
    case True
    then have "?x / pow2 ?e = of_int (n * 2 ^ nat (- ?e))"
      by (cases "?e = 0") (simp_all add: pow2_def)
    then show ?thesis by blast
  next
    case False
    then have "?L = 53" using L53 by simp
    then have "pow2 53 \<le> ?x" using low by simp
    then have "?x = 2 ^ 53" using assms(2) by (simp add: pow2_def)
    moreover have "?e = 1" using \<open>?L = 53\<close> by simp
    ultimately have "?x / pow2 ?e = of_int (2 ^ 52)" by (simp add: pow2_def)
    then show ?thesis by blast
  qed
  then obtain k where k: "?x / pow2 ?e = of_int k" by blast
  have "fl ?x = of_int (round_half_even (?x / pow2 ?e)) * pow2 ?e"
    using xpos by (simp add: fl_def Let_def)
  also have "\<dots> = of_int k * pow2 ?e" by (simp add: k round_half_even_of_int)
  also have "\<dots> = ?x / pow2 ?e * pow2 ?e" by (simp add: k)
  also have "\<dots> = ?x" using pow2_pos [of ?e] by simp
  finally show ?thesis .
qed

lemma fl_exact_nat:
  assumes "x \<in> \<nat>" and "x \<le> 2 ^ 53"
  shows "fl x = x"
proof -
  from assms(1) obtain k where "x = of_nat k" by (auto elim: Nats_cases)
  then have "x = of_int (int k)" by simp
  with fl_exact_int [of "int k"] assms(2) show ?thesis by simp
qed

lemma fl_numeral [simp]:
  "numeral k \<le> (2::rat) ^ 53 \<Longrightarrow> fl (numeral k) = numeral k"
  using fl_exact_nat [of "numeral k"] by simp

lemma fl_zero [simp]: "fl 0 = 0"
  by (simp add: fl_def)

lemma Nats_nonneg: "x \<in> \<nat> \<Longrightarrow> (0::rat) \<le> x"
  by (auto elim: Nats_cases)

lemma Nats_sum_list_nonneg:
  assumes "\<forall>x\<in>set xs. x \<in> \<nat>"
  shows "(0::rat) \<le> sum_list xs \<and> sum_list xs \<in> \<nat>"
  using assms
proof (induction xs)
  case Nil
  then show ?case by simp
next
  case (Cons x xs)
  then have "0 \<le> x" "x \<in> \<nat>" by (auto elim: Nats_cases)
  with Cons show ?case by (simp add: Nats_add)
qed

lemma foldl_fl_exact:
  assumes "\<forall>it\<in>set its. f it \<in> \<nat>"
      and "a \<in> \<nat>"
      and "a + sum_list (map f its) \<le> 2 ^ 53"
  shows "foldl (\<lambda>tot it. fl (tot + fl (f it))) a its = a + sum_list (map f its)"
  using assms
proof (induction its arbitrary: a)
  case Nil
  then show ?case by simp
next
  case (Cons it its)
  have fn: "f it \<in> \<nat>" using Cons.prems(1) by simp
  have rn: "\<forall>x\<in>set (map f its). x \<in> \<nat>" using Cons.prems(1) by simp
  have r0: "0 \<le> sum_list (map f its)" using Nats_sum_list_nonneg [OF rn] by simp
  have a0: "0 \<le> a" using Cons.prems(2) by (auto elim: Nats_cases)
  have f0: "0 \<le> f it" using fn by (auto elim: Nats_cases)
  have b: "a + f it + sum_list (map f its) \<le> 2 ^ 53" using Cons.prems(3) by (simp add: add.assoc)
  have "f it \<le> 2 ^ 53" using b a0 r0 by linarith
  then have e1: "fl (f it) = f it" using fn by (rule fl_exact_nat [rotated])
  have an: "a + f it \<in> \<nat>" using Cons.prems(2) fn by (rule Nats_add)
  have "a + f it \<le> 2 ^ 53" using b r0 by linarith
  then have e2: "fl (a + f it) = a + f it" using an by (rule fl_exact_nat [rotated])
  have "foldl (\<lambda>tot it. fl (tot + fl (f it))) (a + f it) its = (a + f it) + sum_list (map f its)"
    using Cons.prems(1) an b by (intro Cons.IH) auto
  then show ?case by (simp add: e1 e2 add.assoc)
qed

section \<open>Status route: ownership and transitions\<close>

lemma put_order_status_ledger_cases:
  assumes "put_order_status accepts ledger u oid body = (r, os')"
  shows "os' = ledger \<or>
         (oid < length ledger \<and> o_farmer (ledger ! oid) = Some u)"
  using assms
  by (auto simp: put_order_status_def Let_def split: option.splits if_splits)

text \<open>
  C6. For an order whose farmer is \<open>f\<close>, any other acting user and any status of the
  enumerated set: the route answers 401 and the ledger is unchanged; and whichever user
  calls it, the ledger changes only when that user is the order's farmer.
\<close>

theorem put_order_status_forbidden:
  assumes "oid < length ledger"
    and "o_farmer (ledger ! oid) = Some f"
    and "user_id \<noteq> f"
    and "sb_status body = Some s"
    and "s \<in> set status_values"
  shows "put_order_status accepts ledger user_id oid body = (Message 401 ''Not authorized'', ledger)
       \<and> (\<forall>u r os'. put_order_status accepts ledger u oid body = (r, os') \<and> os' \<noteq> ledger
             \<longrightarrow> u = f)"
proof
  show "put_order_status accepts ledger user_id oid body = (Message 401 ''Not authorized'', ledger)"
    using assms by (auto simp: put_order_status_def Let_def)
next
  show "\<forall>u r os'. put_order_status accepts ledger u oid body = (r, os') \<and> os' \<noteq> ledger
          \<longrightarrow> u = f"
  proof (intro allI impI)
    fix u r os'
    assume h: "put_order_status accepts ledger u oid body = (r, os') \<and> os' \<noteq> ledger"
    then have "o_farmer (ledger ! oid) = Some u"
      using put_order_status_ledger_cases [of accepts ledger u oid body r os'] by blast
    with assms(2) show "u = f" by simp
  qed
qed

theorem put_order_status_forbidden_witness:
  "put_order_status (\<lambda>_. True) [sample_order ''pending''] ''F2'' 0
      \<lparr>sb_status = Some ''shipped'', sb_cancelReason = None\<rparr>
     = (Message 401 ''Not authorized'', [sample_order ''pending''])
   \<and> fst (put_order_status (\<lambda>_. True) [sample_order ''pending''] ''F1'' 0
      \<lparr>sb_status = Some ''shipped'', sb_cancelReason = None\<rparr>)
     = Json 200 (sample_order ''shipped'')"
proof -
  have "put_order_status (\<lambda>_. True) [sample_order ''pending''] ''F2'' 0
      \<lparr>sb_status = Some ''shipped'', sb_cancelReason = None\<rparr>
     = (Message 401 ''Not authorized'', [sample_order ''pending''])"
    using put_order_status_forbidden [of 0 "[sample_order ''pending'']" "''F1''" "''F2''"
        "\<lparr>sb_status = Some ''shipped'', sb_cancelReason = None\<rparr>" "''shipped''" "\<lambda>_. True"]
    by (simp add: sample_order_def status_values_def)
  moreover have "fst (put_order_status (\<lambda>_. True) [sample_order ''pending''] ''F1'' 0
      \<lparr>sb_status = Some ''shipped'', sb_cancelReason = None\<rparr>)
     = Json 200 (sample_order ''shipped'')"
    by (simp add: put_order_status_def assign_status_def sample_order_def status_values_def Let_def)
  ultimately show ?thesis by simp
qed

text \<open>
  C3, as stated, fails: the handler writes whatever status of the list it is given. A
  delivered order becomes cancelled, and a shipped order goes back to confirmed.
\<close>

theorem put_order_status_delivered_counterexample:
  "snd (put_order_status (\<lambda>_. True) [sample_order ''delivered''] ''F1'' 0
      \<lparr>sb_status = Some ''cancelled'', sb_cancelReason = Some ''no longer needed''\<rparr>)
     = [(sample_order ''cancelled'')\<lparr>o_cancelReason := Some ''no longer needed''\<rparr>]
   \<and> snd (put_order_status (\<lambda>_. True) [sample_order ''shipped''] ''F1'' 0
      \<lparr>sb_status = Some ''confirmed'', sb_cancelReason = None\<rparr>)
     = [sample_order ''confirmed'']"
  by (simp add: put_order_status_def assign_status_def sample_order_def status_values_def Let_def)

text \<open>
  C3, amended. The route has no transition table: when the order's farmer asks for a
  status of the list and the save is accepted, the order takes that status whatever its
  current one is, and nothing else in the ledger moves; a status outside the list (pending
  included) is refused with 400 and the ledger is unchanged.
\<close>

theorem put_order_status_any_transition:
  assumes "oid < length ledger"
    and "o_farmer (ledger ! oid) = Some user_id"
    and "sb_status body = Some s"
  shows "(s \<in> set status_values \<and> accepts (assign_status body s (ledger ! oid))
            \<longrightarrow> put_order_status accepts ledger user_id oid body
                  = (Json 200 (assign_status body s (ledger ! oid)),
                     ledger[oid := assign_status body s (ledger ! oid)])
              \<and> o_status (assign_status body s (ledger ! oid)) = s)
       \<and> (s \<notin> set status_values
            \<longrightarrow> put_order_status accepts ledger user_id oid body
                  = (Errors 400 [''Status is required''], ledger))"
  using assms
  by (auto simp: put_order_status_def assign_status_def Let_def)

theorem put_order_status_any_transition_witness:
  "map o_status (snd (put_order_status (\<lambda>_. True) [sample_order ''delivered''] ''F1'' 0
      \<lparr>sb_status = Some ''processing'', sb_cancelReason = None\<rparr>)) = [''processing'']
   \<and> put_order_status (\<lambda>_. True) [sample_order ''confirmed''] ''F1'' 0
      \<lparr>sb_status = Some ''pending'', sb_cancelReason = None\<rparr>
     = (Errors 400 [''Status is required''], [sample_order ''confirmed''])"
proof -
  have a: "map o_status (snd (put_order_status (\<lambda>_. True) [sample_order ''delivered''] ''F1'' 0
      \<lparr>sb_status = Some ''processing'', sb_cancelReason = None\<rparr>)) = [''processing'']"
    using put_order_status_any_transition [of 0 "[sample_order ''delivered'']" "''F1''"
        "\<lparr>sb_status = Some ''processing'', sb_cancelReason = None\<rparr>" "''processing''" "\<lambda>_. True"]
    by (simp add: sample_order_def status_values_def assign_status_def)
  have b: "put_order_status (\<lambda>_. True) [sample_order ''confirmed''] ''F1'' 0
      \<lparr>sb_status = Some ''pending'', sb_cancelReason = None\<rparr>
     = (Errors 400 [''Status is required''], [sample_order ''confirmed''])"
    using put_order_status_any_transition [of 0 "[sample_order ''confirmed'']" "''F1''"
        "\<lparr>sb_status = Some ''pending'', sb_cancelReason = None\<rparr>" "''pending''" "\<lambda>_. True"]
    by (simp add: sample_order_def status_values_def)
  from a b show ?thesis by simp
qed

section \<open>Checkout: one order per farmer\<close>

lemma product_save_decrement:
  assumes "product_valid p" and "c \<le> p_quantity p"
  shows "product_save (p\<lparr>p_quantity := fl (p_quantity p - c)\<rparr>)
           = Some (product_pre_save (p\<lparr>p_quantity := fl (p_quantity p - c)\<rparr>))"
  using assms fl_nonneg [of "p_quantity p - c"]
  by (simp add: product_save_def product_valid_def)

lemma foldl_push_line_cong:
  assumes "\<forall>ci\<in>set items. ps (ci_product ci) = ps' (ci_product ci)"
  shows "foldl (push_line ps) g items = foldl (push_line ps') g items"
  using assms by (induction items arbitrary: g) (auto simp: push_line_def)

lemma group_items_completes:
  assumes "distinct (map ci_product items)"
      and "\<forall>ci\<in>set items. \<exists>p. ps (ci_product ci) = Some p \<and> product_valid p
             \<and> of_int (ci_quantity ci) \<le> p_quantity p"
  shows "\<exists>ps'. group_items ps items g = (Completed, ps', foldl (push_line ps) g items)"
  using assms
proof (induction items arbitrary: ps g)
  case Nil
  then show ?case by simp
next
  case (Cons ci rest)
  from Cons.prems obtain p where
    p: "ps (ci_product ci) = Some p" "product_valid p" "of_int (ci_quantity ci) \<le> p_quantity p"
    by auto
  let ?saved = "product_pre_save (p\<lparr>p_quantity := fl (p_quantity p - of_int (ci_quantity ci))\<rparr>)"
  let ?ps = "ps(ci_product ci \<mapsto> ?saved)"
  have sv: "product_save (p\<lparr>p_quantity := fl (p_quantity p - of_int (ci_quantity ci))\<rparr>)
              = Some ?saved"
    using p(2,3) by (rule product_save_decrement)
  have other: "\<forall>c\<in>set rest. ?ps (ci_product c) = ps (ci_product c)"
    using Cons.prems(1) by (auto simp: image_iff)
  have d: "distinct (map ci_product rest)" using Cons.prems(1) by simp
  have st: "\<forall>c\<in>set rest. \<exists>q. ?ps (ci_product c) = Some q \<and> product_valid q
              \<and> of_int (ci_quantity c) \<le> p_quantity q"
    using Cons.prems(2) other by auto
  from Cons.IH [OF d st] obtain ps' where
    ih: "group_items ?ps rest (push_line ps g ci)
           = (Completed, ps', foldl (push_line ?ps) (push_line ps g ci) rest)"
    by blast
  have "foldl (push_line ?ps) (push_line ps g ci) rest = foldl (push_line ps) (push_line ps g ci) rest"
    by (rule foldl_push_line_cong) (use other in auto)
  moreover have pl: "push_item g (p_farmer p)
          \<lparr>oi_product = ci_product ci, oi_quantity = of_int (ci_quantity ci),
           oi_price = p_price p, oi_name = p_name p\<rparr> = push_line ps g ci"
    using p by (simp add: push_line_def)
  ultimately show ?case
    using ih p sv by (simp add: Let_def)
qed

lemma push_item_keys: "fst ` set (push_item g f it) = insert f (fst ` set g)"
proof (cases "map_of g f")
  case None
  then show ?thesis by (auto simp: push_item_def)
next
  case (Some v)
  then have "f \<in> fst ` set g" by (metis map_of_eq_None_iff option.distinct(1))
  moreover have "map fst (map (\<lambda>(k, v). if k = f then (k, v @ [it]) else (k, v)) g) = map fst g"
    by (induction g) auto
  then have "fst ` set (map (\<lambda>(k, v). if k = f then (k, v @ [it]) else (k, v)) g) = fst ` set g"
    by (metis set_map)
  ultimately show ?thesis using Some by (auto simp: push_item_def)
qed

lemma push_item_map_fst:
  "map fst (push_item g f it) = (if map_of g f = None then map fst g @ [f] else map fst g)"
proof -
  have "map fst (map (\<lambda>(k, v). if k = f then (k, v @ [it]) else (k, v)) g) = map fst g"
    by (induction g) auto
  then show ?thesis by (simp add: push_item_def)
qed

lemma push_item_distinct:
  assumes "distinct (map fst g)"
  shows "distinct (map fst (push_item g f it))"
  using assms by (auto simp: push_item_map_fst map_of_eq_None_iff)

lemma map_of_push_item:
  "map_of (push_item g f it) k =
     (if k = f then Some (case map_of g f of None \<Rightarrow> [it] | Some v \<Rightarrow> v @ [it])
      else map_of g k)"
proof (cases "map_of g f")
  case None
  then show ?thesis
    by (auto simp: push_item_def map_add_def split: option.splits)
next
  case (Some v)
  have "map_of (map (\<lambda>(k, v). if k = f then (k, v @ [it]) else (k, v)) g) k =
        (if k = f then map_option (\<lambda>v. v @ [it]) (map_of g k) else map_of g k)"
    by (induction g) auto
  with Some show ?thesis by (auto simp: push_item_def)
qed

lemma farmer_total_exact:
  assumes "\<forall>it\<in>set its. amount it \<in> \<nat>"
      and "sum_list (map amount its) \<le> 2 ^ 53"
  shows "farmer_total its = sum_list (map amount its)"
proof -
  have "foldl (\<lambda>tot it. fl (tot + fl (amount it))) 0 its = 0 + sum_list (map amount its)"
    using assms by (intro foldl_fl_exact) auto
  then show ?thesis by (simp add: farmer_total_def amount_def)
qed

lemma push_item_sum:
  assumes "distinct (map fst g)"
  shows "sum_list (map (\<lambda>e. sum_list (map amount (snd e))) (push_item g f it))
           = sum_list (map (\<lambda>e. sum_list (map amount (snd e))) g) + amount it"
proof (cases "map_of g f")
  case None
  then show ?thesis by (simp add: push_item_def)
next
  case (Some v)
  have "distinct (map fst g) \<Longrightarrow> map_of g f = Some v \<Longrightarrow>
        sum_list (map (\<lambda>e. sum_list (map amount (snd e)))
            (map (\<lambda>(k, v). if k = f then (k, v @ [it]) else (k, v)) g))
          = sum_list (map (\<lambda>e. sum_list (map amount (snd e))) g) + amount it"
  proof (induction g)
    case Nil
    then show ?case by simp
  next
    case (Cons e g)
    obtain k w where e: "e = (k, w)" by (cases e)
    show ?case
    proof (cases "k = f")
      case True
      then have "f \<notin> fst ` set g" using Cons.prems(1) e by auto
      then have "map (\<lambda>(k, v). if k = f then (k, v @ [it]) else (k, v)) g = g"
        by (induction g) auto
      with True e show ?thesis by simp
    next
      case False
      with Cons e show ?thesis by simp
    qed
  qed
  with assms Some show ?thesis by (simp add: push_item_def)
qed

lemma push_line_Some:
  assumes "ps (ci_product ci) = Some p"
  shows "push_line ps g ci = push_item g (p_farmer p)
          \<lparr>oi_product = ci_product ci, oi_quantity = of_int (ci_quantity ci),
           oi_price = p_price p, oi_name = p_name p\<rparr>"
  using assms by (simp add: push_line_def)

lemma amount_snapshot:
  assumes "ps (ci_product ci) = Some p"
  shows "amount (the (snapshot ps ci)) = line_amount ps ci"
  using assms by (simp add: amount_def snapshot_def line_amount_def)

lemma grouped_distinct:
  "distinct (map fst g) \<Longrightarrow> distinct (map fst (foldl (push_line ps) g items))"
proof (induction items arbitrary: g)
  case Nil
  then show ?case by simp
next
  case (Cons ci rest)
  have "distinct (map fst (push_line ps g ci))"
    using Cons.prems by (auto simp: push_line_def push_item_distinct split: option.splits)
  then show ?case using Cons.IH by simp
qed

lemma grouped_sum:
  assumes "distinct (map fst g)"
  shows "sum_list (map (\<lambda>e. sum_list (map amount (snd e))) (foldl (push_line ps) g items))
           = sum_list (map (\<lambda>e. sum_list (map amount (snd e))) g)
             + sum_list (map (line_amount ps) items)"
  using assms
proof (induction items arbitrary: g)
  case Nil
  then show ?case by simp
next
  case (Cons ci rest)
  have d: "distinct (map fst (push_line ps g ci))"
    using Cons.prems by (auto simp: push_line_def push_item_distinct split: option.splits)
  have "sum_list (map (\<lambda>e. sum_list (map amount (snd e))) (push_line ps g ci))
          = sum_list (map (\<lambda>e. sum_list (map amount (snd e))) g) + line_amount ps ci"
    using Cons.prems
    by (auto simp: push_line_def line_amount_def push_item_sum amount_def split: option.splits)
  with Cons.IH [OF d] show ?case by simp
qed

lemma grouped_keys:
  assumes "\<forall>ci\<in>set items. ps (ci_product ci) \<noteq> None"
  shows "Some ` fst ` set (foldl (push_line ps) g items)
           = Some ` fst ` set g \<union> line_farmer ps ` set items"
  using assms
proof (induction items arbitrary: g)
  case Nil
  then show ?case by simp
next
  case (Cons ci rest)
  from Cons.prems obtain p where p: "ps (ci_product ci) = Some p" by auto
  have "Some ` fst ` set (push_line ps g ci) = insert (line_farmer ps ci) (Some ` fst ` set g)"
    using p by (simp add: push_line_Some push_item_keys line_farmer_def)
  moreover have "\<forall>c\<in>set rest. ps (ci_product c) \<noteq> None" using Cons.prems by simp
  ultimately show ?case using Cons.IH [of "push_line ps g ci"] by auto
qed

lemma grouped_entries:
  assumes "\<forall>ci\<in>set items. ps (ci_product ci) \<noteq> None"
  shows "map_of (foldl (push_line ps) g items) f =
          (let new = filter (\<lambda>ci. line_farmer ps ci = Some f) items
           in if new = [] then map_of g f
              else Some ((case map_of g f of None \<Rightarrow> [] | Some v \<Rightarrow> v)
                          @ map (\<lambda>ci. the (snapshot ps ci)) new))"
  using assms
proof (induction items arbitrary: g)
  case Nil
  then show ?case by simp
next
  case (Cons ci rest)
  from Cons.prems obtain p where p: "ps (ci_product ci) = Some p" by auto
  have r: "\<forall>c\<in>set rest. ps (ci_product c) \<noteq> None" using Cons.prems by simp
  note ih = Cons.IH [OF r, of "push_line ps g ci"]
  show ?case
  proof (cases "p_farmer p = f")
    case True
    then have lf: "line_farmer ps ci = Some f" using p by (simp add: line_farmer_def)
    have m: "map_of (push_line ps g ci) f
              = Some ((case map_of g f of None \<Rightarrow> [] | Some v \<Rightarrow> v) @ [the (snapshot ps ci)])"
      using p True by (simp add: push_line_Some map_of_push_item snapshot_def split: option.splits)
    show ?thesis using ih lf m by (simp add: Let_def)
  next
    case False
    then have lf: "line_farmer ps ci \<noteq> Some f" using p by (simp add: line_farmer_def)
    have m: "map_of (push_line ps g ci) f = map_of g f"
      using p False by (simp add: push_line_Some map_of_push_item)
    show ?thesis using ih lf m by (simp add: Let_def)
  qed
qed

lemma grouped_entry:
  assumes "\<forall>ci\<in>set items. ps (ci_product ci) \<noteq> None"
      and "(f, v) \<in> set (foldl (push_line ps) [] items)"
  shows "filter (\<lambda>ci. line_farmer ps ci = Some f) items \<noteq> []
       \<and> v = map (\<lambda>ci. the (snapshot ps ci)) (filter (\<lambda>ci. line_farmer ps ci = Some f) items)"
proof -
  let ?G = "foldl (push_line ps) [] items"
  have "distinct (map fst ?G)" by (rule grouped_distinct) simp
  with assms(2) have m: "map_of ?G f = Some v" by simp
  with grouped_entries [OF assms(1), of "[]" f] show ?thesis
    by (auto simp: Let_def split: if_splits)
qed

lemma sum_list_filter_le:
  assumes "\<forall>x\<in>set xs. (0::rat) \<le> h x"
  shows "sum_list (map h (filter P xs)) \<le> sum_list (map h xs)"
  using assms by (induction xs) (auto intro: add_increasing)

lemma grouped_total_exact:
  assumes "\<forall>ci\<in>set items. ps (ci_product ci) \<noteq> None"
      and "\<forall>ci\<in>set items. line_amount ps ci \<in> \<nat>"
      and "sum_list (map (line_amount ps) items) \<le> 2 ^ 53"
      and "(f, v) \<in> set (foldl (push_line ps) [] items)"
  shows "farmer_total v = sum_list (map amount v)"
proof -
  let ?new = "filter (\<lambda>ci. line_farmer ps ci = Some f) items"
  from grouped_entry [OF assms(1,4)]
  have v: "v = map (\<lambda>ci. the (snapshot ps ci)) ?new" by simp
  have a: "map amount v = map (line_amount ps) ?new"
    unfolding v using assms(1) by (auto simp: amount_snapshot)
  have n: "\<forall>it\<in>set v. amount it \<in> \<nat>"
  proof
    fix it assume "it \<in> set v"
    then have "amount it \<in> set (map amount v)" by simp
    then show "amount it \<in> \<nat>" unfolding a using assms(2) by auto
  qed
  have "\<forall>ci\<in>set items. 0 \<le> line_amount ps ci"
    using assms(2) by (auto intro: Nats_nonneg)
  then have "sum_list (map (line_amount ps) ?new) \<le> sum_list (map (line_amount ps) items)"
    by (rule sum_list_filter_le)
  then have "sum_list (map amount v) \<le> 2 ^ 53" using a assms(3) by simp
  with n show ?thesis by (rule farmer_total_exact)
qed

lemma save_orders_all:
  assumes "list_all accepts (map (make_order u body) g)"
  shows "save_orders accepts u body g created = Some (created @ map (make_order u body) g)"
  using assms by (induction g arbitrary: created) (auto simp: Let_def)

lemma planned_orders_farmers:
  "map o_farmer (planned_orders u body ps items) = map (Some \<circ> fst) (foldl (push_line ps) [] items)"
  by (simp add: planned_orders_def make_order_def split_def comp_def)

lemma planned_orders_distinct: "distinct (map o_farmer (planned_orders u body ps items))"
proof -
  have "distinct (map fst (foldl (push_line ps) [] items))"
    by (rule grouped_distinct) simp
  then have "distinct (map Some (map fst (foldl (push_line ps) [] items)))"
    by (subst distinct_map) simp
  then show ?thesis by (simp add: planned_orders_farmers)
qed

lemma planned_orders_length:
  assumes "\<forall>ci\<in>set items. ps (ci_product ci) \<noteq> None"
  shows "length (planned_orders u body ps items) = card (line_farmer ps ` set items)"
proof -
  have "length (planned_orders u body ps items) = length (map o_farmer (planned_orders u body ps items))"
    by simp
  also have "\<dots> = card (set (map o_farmer (planned_orders u body ps items)))"
    using distinct_card [OF planned_orders_distinct [of u body ps items]] by simp
  also have "set (map o_farmer (planned_orders u body ps items))
               = Some ` fst ` set (foldl (push_line ps) [] items)"
    by (simp add: planned_orders_farmers image_image)
  also have "\<dots> = line_farmer ps ` set items"
    using grouped_keys [OF assms, of "[]"] by simp
  finally show ?thesis .
qed

lemma planned_orders_sum:
  assumes "\<forall>ci\<in>set items. ps (ci_product ci) \<noteq> None"
      and "\<forall>ci\<in>set items. line_amount ps ci \<in> \<nat>"
      and "sum_list (map (line_amount ps) items) \<le> 2 ^ 53"
  shows "sum_list (map o_totalAmount (planned_orders u body ps items))
           = sum_list (map (line_amount ps) items)"
proof -
  let ?G = "foldl (push_line ps) [] items"
  have "map o_totalAmount (planned_orders u body ps items) = map (\<lambda>e. farmer_total (snd e)) ?G"
    by (simp add: planned_orders_def make_order_def split_def comp_def)
  also have "\<dots> = map (\<lambda>e. sum_list (map amount (snd e))) ?G"
  proof (rule map_cong [OF refl])
    fix e assume "e \<in> set ?G"
    then have "(fst e, snd e) \<in> set ?G" by simp
    then show "farmer_total (snd e) = sum_list (map amount (snd e))"
      by (rule grouped_total_exact [OF assms])
  qed
  finally show ?thesis using grouped_sum [of "[]" ps items] by simp
qed

lemma planned_orders_items:
  assumes "\<forall>ci\<in>set items. ps (ci_product ci) \<noteq> None"
      and "ord \<in> set (planned_orders u body ps items)"
  shows "o_consumer ord = u \<and> o_items ord \<noteq> [] \<and>
         map Some (o_items ord)
           = map (snapshot ps) (filter (\<lambda>ci. line_farmer ps ci = o_farmer ord) items) \<and>
         o_totalAmount ord
           = foldl (\<lambda>tot item. fl (tot + fl (oi_price item * oi_quantity item))) 0 (o_items ord) \<and>
         o_paymentMethod ord = paymentMethod body \<and>
         o_shippingDetails ord = shippingDetails body \<and>
         o_notes ord = order_notes body"
proof -
  let ?G = "foldl (push_line ps) [] items"
  from assms(2) obtain f v where e: "(f, v) \<in> set ?G" and ord: "ord = make_order u body (f, v)"
    by (auto simp: planned_orders_def)
  let ?new = "filter (\<lambda>ci. line_farmer ps ci = Some f) items"
  from grouped_entry [OF assms(1) e]
  have ne: "?new \<noteq> []" and v: "v = map (\<lambda>ci. the (snapshot ps ci)) ?new"
    by auto
  have "map Some v = map (snapshot ps) ?new"
    unfolding v using assms(1) by (auto simp: snapshot_def)
  moreover have "v \<noteq> []" using ne v by simp
  ultimately show ?thesis using ord by (simp add: make_order_def farmer_total_def)
qed

text \<open>
  C1, as stated, fails in two ways. Lines within the stock do not suffice: a cart with
  the same product on two lines of 3, the stock being 5, is refused with 400 at the second
  line, where the transaction sees 2 left. And the totals are sums of doubles: for prices
  0.1, 0.2 and 0.3 (quantities 1, 1 and 2, the first and third product of one farmer) the
  two orders total 0.7 and 0.2, which add up neither exactly nor as doubles to the sum of
  price times quantity over the cart.
\<close>

theorem checkout_one_order_per_farmer_counterexample:
  "map (\<lambda>ci. (ci_product ci, ci_quantity ci)) (c_items (the (carts twice_db ''C1'')))
     = [(''pA'', 3), (''pA'', 3)]
   \<and> map_option p_quantity (products twice_db ''pA'') = Some 5
   \<and> checkout (\<lambda>_. True) twice_db ''C1'' sample_body
       = (Template 400
            [Literal ''Insufficient quantity for '', String_value ''Tomato'',
             Literal ''. Available: '', Number_value 2,
             Literal '', Requested: '', Number_value 3],
          twice_db, LeftOpen)
   \<and> snd (snd (checkout (\<lambda>_. True) cents_db ''C1'' sample_body)) = Committed
   \<and> map o_farmer (orders (fst (snd (checkout (\<lambda>_. True) cents_db ''C1'' sample_body))))
       = [Some ''F1'', Some ''F2'']
   \<and> map o_totalAmount (orders (fst (snd (checkout (\<lambda>_. True) cents_db ''C1'' sample_body))))
       = [fl (7 / 10), fl (1 / 5)]
   \<and> fl (7 / 10) + fl (1 / 5) \<noteq> sum_list (map (line_amount cents_products) (c_items cents_cart))
   \<and> fl (fl (7 / 10) + fl (1 / 5))
       \<noteq> foldl (\<lambda>s ci. fl (s + fl (line_amount cents_products ci))) 0 (c_items cents_cart)"
proof (intro conjI)
  show "map (\<lambda>ci. (ci_product ci, ci_quantity ci)) (c_items (the (carts twice_db ''C1'')))
          = [(''pA'', 3), (''pA'', 3)]"
    by (simp add: twice_db_def)
  show "map_option p_quantity (products twice_db ''pA'') = Some 5"
    by (simp add: twice_db_def sample_products_def)
  show "checkout (\<lambda>_. True) twice_db ''C1'' sample_body
       = (Template 400
            [Literal ''Insufficient quantity for '', String_value ''Tomato'',
             Literal ''. Available: '', Number_value 2,
             Literal '', Requested: '', Number_value 3],
          twice_db, LeftOpen)"
    by (simp add: checkout_def twice_db_def sample_products_def sample_body_def
          sample_shipping_def truthy_def push_item_def product_save_def product_valid_def
          product_pre_save_def Let_def)
  show "snd (snd (checkout (\<lambda>_. True) cents_db ''C1'' sample_body)) = Committed"
    by code_simp
  show "map o_farmer (orders (fst (snd (checkout (\<lambda>_. True) cents_db ''C1'' sample_body))))
       = [Some ''F1'', Some ''F2'']"
    by code_simp
  show "map o_totalAmount (orders (fst (snd (checkout (\<lambda>_. True) cents_db ''C1'' sample_body))))
       = [fl (7 / 10), fl (1 / 5)]"
    by code_simp
  show "fl (7 / 10) + fl (1 / 5)
          \<noteq> sum_list (map (line_amount cents_products) (c_items cents_cart))"
    by code_simp
  show "fl (fl (7 / 10) + fl (1 / 5))
       \<noteq> foldl (\<lambda>s ci. fl (s + fl (line_amount cents_products ci))) 0 (c_items cents_cart)"
    by code_simp
qed

text \<open>
  C1, amended. A request that passes the handler's two checks, a non-empty cart with one
  line per product, every line resolving to a stored product that passes the schema's
  validators and has the line's quantity on hand, and orders the Order schema accepts:
  checkout commits and creates one order per distinct farmer of the cart. Each order is
  the consumer's, holds exactly the lines of its farmer, as snapshots of product id,
  quantity, price and name, in cart order, carries the request's payment method, shipping
  details and notes, and has as total the sum of price times quantity over its items as
  the reduce computes it, in doubles from 0 in item order. When every line's price times
  quantity is a natural number and these add up to at most \<open>2 ^ 53\<close>, the totals of the
  orders add up to the sum of price times quantity over the cart.
\<close>

theorem checkout_one_order_per_farmer:
  assumes "truthy (paymentMethod body)"
      and "shippingDetails body = Some sd" and "truthy (address sd)"
      and "carts d user_id = Some cart" and "c_items cart \<noteq> []"
      and "distinct (map ci_product (c_items cart))"
      and "\<forall>ci\<in>set (c_items cart).
             \<exists>p. products d (ci_product ci) = Some p \<and> product_valid p
               \<and> of_int (ci_quantity ci) \<le> p_quantity p"
      and "list_all accepts (planned_orders user_id body (products d) (c_items cart))"
  shows "\<exists>created d'.
           checkout accepts d user_id body = (Json 201 created, d', Committed)
         \<and> orders d' = orders d @ created
         \<and> length created = card (line_farmer (products d) ` set (c_items cart))
         \<and> distinct (map o_farmer created)
         \<and> (\<forall>ord\<in>set created.
               o_consumer ord = user_id
             \<and> o_items ord \<noteq> []
             \<and> map Some (o_items ord)
                 = map (snapshot (products d))
                     (filter (\<lambda>ci. line_farmer (products d) ci = o_farmer ord) (c_items cart))
             \<and> o_totalAmount ord
                 = foldl (\<lambda>tot item. fl (tot + fl (oi_price item * oi_quantity item))) 0
                     (o_items ord)
             \<and> o_paymentMethod ord = paymentMethod body
             \<and> o_shippingDetails ord = shippingDetails body
             \<and> o_notes ord = order_notes body)
         \<and> ((\<forall>ci\<in>set (c_items cart). line_amount (products d) ci \<in> \<nat>)
              \<and> sum_list (map (line_amount (products d)) (c_items cart)) \<le> 2 ^ 53
            \<longrightarrow> sum_list (map o_totalAmount created)
                  = sum_list (map (line_amount (products d)) (c_items cart)))"
proof -
  let ?ps = "products d" and ?items = "c_items cart"
  let ?created = "planned_orders user_id body ?ps ?items"
  from group_items_completes [OF assms(6) assms(7), of "[]"] obtain ps' where
    g: "group_items ?ps ?items [] = (Completed, ps', foldl (push_line ?ps) [] ?items)"
    by blast
  have s: "save_orders accepts user_id body (foldl (push_line ?ps) [] ?items) [] = Some ?created"
    using save_orders_all [of accepts user_id body "foldl (push_line ?ps) [] ?items" "[]"] assms(8)
    by (simp add: planned_orders_def)
  let ?d' = "\<lparr>products = ps',
              carts = (carts d)(user_id \<mapsto> cart_save d user_id (cart\<lparr>c_items := []\<rparr>)),
              orders = orders d @ ?created\<rparr>"
  have c: "checkout accepts d user_id body = (Json 201 ?created, ?d', Committed)"
    using assms(1-5) g s by (simp add: checkout_def)
  have res: "\<forall>ci\<in>set ?items. ?ps (ci_product ci) \<noteq> None" using assms(7) by auto
  have "orders ?d' = orders d @ ?created" by simp
  moreover have "length ?created = card (line_farmer ?ps ` set ?items)"
    by (rule planned_orders_length [OF res])
  moreover have "distinct (map o_farmer ?created)" by (rule planned_orders_distinct)
  moreover have "\<forall>ord\<in>set ?created.
               o_consumer ord = user_id
             \<and> o_items ord \<noteq> []
             \<and> map Some (o_items ord)
                 = map (snapshot ?ps) (filter (\<lambda>ci. line_farmer ?ps ci = o_farmer ord) ?items)
             \<and> o_totalAmount ord
                 = foldl (\<lambda>tot item. fl (tot + fl (oi_price item * oi_quantity item))) 0
                     (o_items ord)
             \<and> o_paymentMethod ord = paymentMethod body
             \<and> o_shippingDetails ord = shippingDetails body
             \<and> o_notes ord = order_notes body"
    using planned_orders_items [OF res] by blast
  moreover have "(\<forall>ci\<in>set ?items. line_amount ?ps ci \<in> \<nat>)
              \<and> sum_list (map (line_amount ?ps) ?items) \<le> 2 ^ 53
            \<longrightarrow> sum_list (map o_totalAmount ?created) = sum_list (map (line_amount ?ps) ?items)"
    using planned_orders_sum [OF res] by blast
  ultimately show ?thesis using c by blast
qed

theorem checkout_one_order_per_farmer_witness:
  "\<exists>d'.
      checkout (\<lambda>_. True) sample_db ''C1'' sample_body
        = (Json 201
             [\<lparr>o_consumer = ''C1'', o_farmer = Some ''F1'',
               o_items = [\<lparr>oi_product = ''pA'', oi_quantity = 2, oi_price = 10,
                            oi_name = ''Tomato''\<rparr>,
                          \<lparr>oi_product = ''pC'', oi_quantity = 4, oi_price = 7 / 2,
                            oi_name = ''Rice''\<rparr>],
               o_totalAmount = 34, o_paymentMethod = Some ''online'',
               o_shippingDetails = Some sample_shipping, o_notes = None,
               o_status = ''pending'', o_cancelReason = None\<rparr>,
              \<lparr>o_consumer = ''C1'', o_farmer = Some ''F2'',
               o_items = [\<lparr>oi_product = ''pB'', oi_quantity = 1, oi_price = 5,
                            oi_name = ''Milk''\<rparr>],
               o_totalAmount = 5, o_paymentMethod = Some ''online'',
               o_shippingDetails = Some sample_shipping, o_notes = None,
               o_status = ''pending'', o_cancelReason = None\<rparr>],
           d', Committed)
    \<and> length (orders d') = 2
    \<and> sum_list (map o_totalAmount (orders d')) = 39
    \<and> card (line_farmer (products sample_db) ` set (c_items sample_cart)) = 2
    \<and> sum_list (map (line_amount (products sample_db)) (c_items sample_cart)) = 39"
proof -
  have h1: "truthy (paymentMethod sample_body)"
    by (simp add: truthy_def sample_body_def)
  have h2: "shippingDetails sample_body = Some sample_shipping"
    by (simp add: sample_body_def)
  have h3: "truthy (address sample_shipping)"
    by (simp add: truthy_def sample_shipping_def)
  have h4: "carts sample_db ''C1'' = Some sample_cart"
    by (simp add: sample_db_def)
  have h5: "c_items sample_cart \<noteq> []"
    by (simp add: sample_cart_def)
  have h6: "distinct (map ci_product (c_items sample_cart))"
    by (simp add: sample_cart_def)
  have h7: "\<forall>ci\<in>set (c_items sample_cart).
             \<exists>p. products sample_db (ci_product ci) = Some p \<and> product_valid p
               \<and> of_int (ci_quantity ci) \<le> p_quantity p"
    by (simp add: sample_cart_def sample_db_def sample_products_def product_valid_def)
  have h8: "list_all (\<lambda>_. True) (planned_orders ''C1'' sample_body (products sample_db) (c_items sample_cart))"
    by (simp add: list_all_iff)
  have "line_farmer (products sample_db) ` set (c_items sample_cart) = {Some ''F1'', Some ''F2''}"
    by (auto simp: line_farmer_def sample_cart_def sample_db_def sample_products_def)
  then have n: "card (line_farmer (products sample_db) ` set (c_items sample_cart)) = 2"
    by simp
  have s: "sum_list (map (line_amount (products sample_db)) (c_items sample_cart)) = 39"
    by (simp add: line_amount_def sample_cart_def sample_db_def sample_products_def)
  have nat: "\<forall>ci\<in>set (c_items sample_cart). line_amount (products sample_db) ci \<in> \<nat>"
    by (simp add: line_amount_def sample_cart_def sample_db_def sample_products_def)
  have e: "orders sample_db = []" by (simp add: sample_db_def)
  from checkout_one_order_per_farmer [OF h1 h2 h3 h4 h5 h6 h7 h8] nat
  obtain created d' where
    c: "checkout (\<lambda>_. True) sample_db ''C1'' sample_body = (Json 201 created, d', Committed)"
       "orders d' = created" "length created = 2"
       "sum_list (map o_totalAmount created) = 39"
    unfolding n s e by auto
  have "fst (checkout (\<lambda>_. True) sample_db ''C1'' sample_body)
        = Json 201
             [\<lparr>o_consumer = ''C1'', o_farmer = Some ''F1'',
               o_items = [\<lparr>oi_product = ''pA'', oi_quantity = 2, oi_price = 10,
                            oi_name = ''Tomato''\<rparr>,
                          \<lparr>oi_product = ''pC'', oi_quantity = 4, oi_price = 7 / 2,
                            oi_name = ''Rice''\<rparr>],
               o_totalAmount = 34, o_paymentMethod = Some ''online'',
               o_shippingDetails = Some sample_shipping, o_notes = None,
               o_status = ''pending'', o_cancelReason = None\<rparr>,
              \<lparr>o_consumer = ''C1'', o_farmer = Some ''F2'',
               o_items = [\<lparr>oi_product = ''pB'', oi_quantity = 1, oi_price = 5,
                            oi_name = ''Milk''\<rparr>],
               o_totalAmount = 5, o_paymentMethod = Some ''online'',
               o_shippingDetails = Some sample_shipping, o_notes = None,
               o_status = ''pending'', o_cancelReason = None\<rparr>]"
    by (simp add: checkout_def sample_db_def sample_cart_def sample_products_def sample_body_def
          truthy_def sample_shipping_def push_item_def product_save_def product_valid_def
          product_pre_save_def make_order_def farmer_total_def initial_status_def Let_def)
  with c(1) have "created = [\<lparr>o_consumer = ''C1'', o_farmer = Some ''F1'',
               o_items = [\<lparr>oi_product = ''pA'', oi_quantity = 2, oi_price = 10,
                            oi_name = ''Tomato''\<rparr>,
                          \<lparr>oi_product = ''pC'', oi_quantity = 4, oi_price = 7 / 2,
                            oi_name = ''Rice''\<rparr>],
               o_totalAmount = 34, o_paymentMethod = Some ''online'',
               o_shippingDetails = Some sample_shipping, o_notes = None,
               o_status = ''pending'', o_cancelReason = None\<rparr>,
              \<lparr>o_consumer = ''C1'', o_farmer = Some ''F2'',
               o_items = [\<lparr>oi_product = ''pB'', oi_quantity = 1, oi_price = 5,
                            oi_name = ''Milk''\<rparr>],
               o_totalAmount = 5, o_paymentMethod = Some ''online'',
               o_shippingDetails = Some sample_shipping, o_notes = None,
               o_status = ''pending'', o_cancelReason = None\<rparr>]"
    by simp
  with c n s show ?thesis by simp
qed

section \<open>Checkout: insufficient stock\<close>




lemma checkout_request_checks:
  "(\<not> truthy (paymentMethod body) \<longrightarrow>
      checkout accepts d u body = (Message 400 ''Payment method is required'', d, LeftOpen))
   \<and> (truthy (paymentMethod body) \<and> shippingDetails body = None \<longrightarrow>
      checkout accepts d u body = (Message 400 ''Shipping details are required'', d, LeftOpen))
   \<and> (truthy (paymentMethod body) \<and> shippingDetails body = Some sd \<and> \<not> truthy (address sd) \<longrightarrow>
      checkout accepts d u body = (Message 400 ''Shipping details are required'', d, LeftOpen))
   \<and> \<not> truthy None \<and> \<not> truthy (Some []) \<and> truthy (Some ''x'')"
  by (simp add: checkout_def truthy_def)

text \<open>
  A save ahead of the short line throws when the stored product does not pass the
  validators, for one when its status is outside the enum, as PUT /api/products/:id can
  store it: the transaction is aborted and the answer is 500.
\<close>

lemma checkout_invalid_product_aborts:
  assumes "truthy (paymentMethod body)"
      and "shippingDetails body = Some sd" and "truthy (address sd)"
      and "carts d user_id = Some cart" and "c_items cart = ci # rest"
      and "products d (ci_product ci) = Some p"
      and "of_int (ci_quantity ci) \<le> p_quantity p"
      and "p_status p \<noteq> ''available''" and "p_status p \<noteq> ''sold_out''"
  shows "checkout accepts d user_id body = (Message 500 ''Server Error'', d, Aborted)"
  using assms
  by (simp add: checkout_def product_save_def product_valid_def Let_def)




section \<open>Cart routes\<close>

lemma cart_save_items: "c_items (cart_save d u this) = c_items this"
  by (simp add: cart_save_def cart_pre_save_def split: option.splits)

lemma cart_save_unmodified:
  assumes "carts d u = Some loaded" and "c_items this = c_items loaded"
  shows "cart_save d u this = this"
  using assms by (simp add: cart_save_def cart_pre_save_def)


text \<open>
  C5, as stated, fails: the route never answers 404 for an item id. Removing an id the
  cart does not hold answers 200, and so does removing the same id a second time.
\<close>

theorem delete_cart_item_absent_counterexample:
  "fst (delete_cart_item sample_db ''C1'' ''nope'') = Json 200 sample_cart
   \<and> fst (delete_cart_item (snd (delete_cart_item sample_db ''C1'' ''i1'')) ''C1'' ''i1'')
       = Json 200 \<lparr>c_items = [\<lparr>ci_id = ''i2'', ci_product = ''pB'', ci_quantity = 1\<rparr>,
                               \<lparr>ci_id = ''i3'', ci_product = ''pC'', ci_quantity = 4\<rparr>],
                    c_total = 39\<rparr>"
  by (simp add: delete_cart_item_def removeItem_def cart_save_def cart_pre_save_def
        populated_total_def sample_db_def sample_cart_def sample_products_def Let_def)

text \<open>
  C5, amended. The route answers 404 only when the user has no cart. When the cart exists
  it answers 200 whether or not the item id is in it, and the saved cart holds the lines
  with another id; a second call with the same id answers 200 with the same cart and
  leaves the database as the first call left it.
\<close>

theorem delete_cart_item_idempotent:
  "(carts d u = None \<longrightarrow> delete_cart_item d u itemId = (Message 404 ''Cart not found'', d))
   \<and> (\<forall>cart. carts d u = Some cart \<longrightarrow>
        (\<exists>saved d'.
            delete_cart_item d u itemId = (Json 200 saved, d')
          \<and> carts d' u = Some saved
          \<and> c_items saved = filter (\<lambda>item. ci_id item \<noteq> itemId) (c_items cart)
          \<and> delete_cart_item d' u itemId = (Json 200 saved, d')))"
proof (intro conjI impI allI)
  assume "carts d u = None"
  then show "delete_cart_item d u itemId = (Message 404 ''Cart not found'', d)"
    by (simp add: delete_cart_item_def)
next
  fix cart
  assume c: "carts d u = Some cart"
  let ?saved = "cart_save d u (removeItem itemId cart)"
  let ?d' = "d\<lparr>carts := (carts d)(u \<mapsto> ?saved)\<rparr>"
  have 1: "delete_cart_item d u itemId = (Json 200 ?saved, ?d')"
    using c by (simp add: delete_cart_item_def Let_def)
  have 2: "carts ?d' u = Some ?saved" by simp
  have 3: "c_items ?saved = filter (\<lambda>item. ci_id item \<noteq> itemId) (c_items cart)"
    by (simp add: cart_save_items removeItem_def)
  have "c_items (removeItem itemId ?saved) = c_items ?saved"
    by (simp add: removeItem_def cart_save_items)
  moreover from this have "removeItem itemId ?saved = ?saved"
    by (simp add: removeItem_def)
  ultimately have 4: "cart_save ?d' u (removeItem itemId ?saved) = ?saved"
    using cart_save_unmodified [OF 2, of "removeItem itemId ?saved"] by simp
  have 5: "delete_cart_item ?d' u itemId = (Json 200 ?saved, ?d')"
    using 2 4 by (simp add: delete_cart_item_def Let_def)
  from 1 2 3 5
  show "\<exists>saved d'.
            delete_cart_item d u itemId = (Json 200 saved, d')
          \<and> carts d' u = Some saved
          \<and> c_items saved = filter (\<lambda>item. ci_id item \<noteq> itemId) (c_items cart)
          \<and> delete_cart_item d' u itemId = (Json 200 saved, d')"
    by blast
qed

theorem delete_cart_item_idempotent_witness:
  "\<exists>saved d'.
      delete_cart_item sample_db ''C1'' ''i1'' = (Json 200 saved, d')
    \<and> map ci_id (c_items saved) = [''i2'', ''i3'']
    \<and> delete_cart_item d' ''C1'' ''i1'' = (Json 200 saved, d')"
proof -
  have c: "carts sample_db ''C1'' = Some sample_cart" by (simp add: sample_db_def)
  have f: "map ci_id (filter (\<lambda>item. ci_id item \<noteq> ''i1'') (c_items sample_cart)) = [''i2'', ''i3'']"
    by (simp add: sample_cart_def)
  from delete_cart_item_idempotent [of sample_db "''C1''" "''i1''"] c
  obtain saved d' where
    "delete_cart_item sample_db ''C1'' ''i1'' = (Json 200 saved, d')"
    "c_items saved = filter (\<lambda>item. ci_id item \<noteq> ''i1'') (c_items sample_cart)"
    "delete_cart_item d' ''C1'' ''i1'' = (Json 200 saved, d')"
    by blast
  with f show ?thesis by auto
qed

text \<open>
  C4 fails on the code. The pre-save hook sums over the cart as stored before the save,
  not over the items being saved: the first item put into a new cart is stored with total 0
  although its line is worth 20, and the cart that checkout empties is stored with the
  total of the lines it held, 39.
\<close>

theorem cart_total_is_stale:
  "carts (snd (post_cart \<lparr>products = sample_products, carts = Map.empty, orders = []\<rparr>
                 ''C9'' ''i9'' ''pA'' 2)) ''C9''
     = Some \<lparr>c_items = [\<lparr>ci_id = ''i9'', ci_product = ''pA'', ci_quantity = 2\<rparr>], c_total = 0\<rparr>
   \<and> line_amount sample_products \<lparr>ci_id = ''i9'', ci_product = ''pA'', ci_quantity = 2\<rparr> = 20
   \<and> snd (snd (checkout (\<lambda>_. True) sample_db ''C1'' sample_body)) = Committed
   \<and> carts (fst (snd (checkout (\<lambda>_. True) sample_db ''C1'' sample_body))) ''C1''
       = Some \<lparr>c_items = [], c_total = 39\<rparr>"
  by (simp add: post_cart_def checkout_def cart_save_def cart_pre_save_def populated_total_def
        line_amount_def sample_db_def sample_cart_def sample_products_def sample_body_def
        sample_shipping_def truthy_def push_item_def product_save_def product_valid_def
        product_pre_save_def make_order_def Let_def)

section \<open>Products: status and quantity\<close>

lemma product_save_status_consistent:
  assumes "product_save p = Some saved"
  shows "status_consistent saved"
  using assms
  by (auto simp: product_save_def product_valid_def product_pre_save_def status_consistent_def
        split: if_splits)

lemma post_product_status_consistent:
  assumes "post_product ps user_id new_id form = (Json n saved, ps')"
  shows "status_consistent saved \<and> ps' new_id = Some saved"
  using assms product_save_status_consistent
  by (auto simp: post_product_def split: if_splits option.splits)

lemma group_items_status_consistent:
  assumes "\<forall>k p. ps k = Some p \<longrightarrow> status_consistent p"
  shows "\<forall>k p. fst (snd (group_items ps items g)) k = Some p \<longrightarrow> status_consistent p"
  using assms
proof (induction items arbitrary: ps g)
  case Nil
  then show ?case by simp
next
  case (Cons ci rest)
  show ?case
  proof (cases "ps (ci_product ci)")
    case None
    then show ?thesis using Cons.prems by simp
  next
    case (Some p)
    show ?thesis
    proof (cases "product_save
                    (p\<lparr>p_quantity := fl (p_quantity p - of_int (ci_quantity ci))\<rparr>)")
      case None
      then show ?thesis using Some Cons.prems by (simp add: Let_def)
    next
      case sv: (Some saved)
      have "\<forall>k q. (ps(ci_product ci \<mapsto> saved)) k = Some q \<longrightarrow> status_consistent q"
        using Cons.prems product_save_status_consistent [OF sv] by auto
      then have "\<forall>k q. fst (snd (group_items (ps(ci_product ci \<mapsto> saved)) rest
                    (push_item g (p_farmer p)
                       \<lparr>oi_product = ci_product ci, oi_quantity = of_int (ci_quantity ci),
                        oi_price = p_price p, oi_name = p_name p\<rparr>))) k = Some q
                  \<longrightarrow> status_consistent q"
        by (rule Cons.IH)
      then show ?thesis using Some sv Cons.prems by (simp add: Let_def)
    qed
  qed
qed

text \<open>
  C7 fails on the code. The routes that call \<open>save()\<close> keep status and quantity together
  (the lemmas above), but PUT /api/products/:id writes with \<open>findByIdAndUpdate\<close>, which runs
  neither the hook nor the validators: the owner's update of the quantity to 0 leaves the
  status available, and an update to -3 is stored as it is.
\<close>

theorem put_product_skips_status_hook:
  "status_consistent \<lparr>p_farmer = ''F1'', p_name = ''Tomato'', p_price = 10, p_quantity = 5,
                       p_status = ''available''\<rparr>
   \<and> sample_products ''pA'' = Some \<lparr>p_farmer = ''F1'', p_name = ''Tomato'', p_price = 10,
                                      p_quantity = 5, p_status = ''available''\<rparr>
   \<and> snd (put_product sample_products ''F1'' ''pA''
            \<lparr>pu_name = None, pu_price = None, pu_quantity = Some 0, pu_status = None\<rparr>) ''pA''
       = Some \<lparr>p_farmer = ''F1'', p_name = ''Tomato'', p_price = 10, p_quantity = 0,
                p_status = ''available''\<rparr>
   \<and> \<not> status_consistent \<lparr>p_farmer = ''F1'', p_name = ''Tomato'', p_price = 10, p_quantity = 0,
                p_status = ''available''\<rparr>
   \<and> snd (put_product sample_products ''F1'' ''pA''
            \<lparr>pu_name = None, pu_price = None, pu_quantity = Some (- 3), pu_status = None\<rparr>) ''pA''
       = Some \<lparr>p_farmer = ''F1'', p_name = ''Tomato'', p_price = 10, p_quantity = - 3,
                p_status = ''available''\<rparr>"
  by (simp add: put_product_def apply_set_def status_consistent_def sample_products_def)

section \<open>Checkout: what the request check lets through\<close>

text \<open>
  C8 fails on the code. Checkout tests only that the payment method and the shipping
  address are present. A request whose payment method is outside the list and whose
  shipping details lack every field but the address passes, the cart is read, and (the
  schema permitting) two orders are committed. The direct order route refuses the same
  payment method and shipping details with 400 before it reads anything.
\<close>

theorem checkout_accepts_incomplete_request:
  "snd (snd (checkout (\<lambda>_. True) sample_db ''C1'' incomplete_body)) = Committed
   \<and> map o_paymentMethod (orders (fst (snd (checkout (\<lambda>_. True) sample_db ''C1'' incomplete_body))))
       = [Some ''bitcoin'', Some ''bitcoin'']
   \<and> fst (checkout (\<lambda>_. True) \<lparr>products = sample_products, carts = Map.empty, orders = []\<rparr>
             ''C1'' incomplete_body) = Message 400 ''Your cart is empty''
   \<and> create_order (\<lambda>_. True) sample_db ''C1''
        \<lparr>ob_items = [\<lparr>ri_product = IdString ''pA'', ri_quantity = 2\<rparr>],
         ob_paymentMethod = paymentMethod incomplete_body,
         ob_shippingDetails = shippingDetails incomplete_body, ob_notes = None\<rparr>
       = (Errors 400 [''Payment method is required'', ''Full name is required'',
            ''City is required'', ''State is required'', ''Postal code is required'',
            ''Phone number is required''], sample_db)"
  by (simp add: checkout_def create_order_def order_body_errors_def shipping_field_missing_def
        payment_methods_def incomplete_body_def address_only_def
        sample_db_def sample_cart_def sample_products_def
        truthy_def push_item_def product_save_def product_valid_def product_pre_save_def
        make_order_def Let_def)

section \<open>Predictions: the fallback\<close>

lemma post_yield_prediction_fallback:
  assumes "yield_request_errors req = []"
      and "yield_prediction_save
             \<lparr>yp_farmerId = user_id, yp_request = req, yp_result = mockResult, yp_isMock = True\<rparr>
           = Some doc"
  shows "post_yield_prediction True mockResult history user_id req (Inl failure)
           = (Json 200 doc, history @ [doc]) \<and> yp_isMock doc \<and> yp_farmerId doc = user_id"
  using assms
  by (auto simp: post_yield_prediction_def yield_prediction_save_def split: if_splits)

lemma post_prediction_ignores_is_mock:
  "post_prediction use_mock isURL rnd history user_id imageUrl (Inr (data\<lparr>fd_is_mock := b\<rparr>))
     = post_prediction use_mock isURL rnd history user_id imageUrl (Inr data)"
  by (simp add: post_prediction_def new_Prediction_def)

text \<open>
  C9 fails on the code, for the disease route. With the fallback enabled and the call
  timing out, the handler builds the document with \<open>isMock: true\<close>, but models/Prediction.js
  declares no such path: the stored record and the reply are those of a genuine answer of
  the service with the same prediction and confidence, and carry no flag. With the
  fallback disabled the timeout ends in 500, not 503; only a refused connection gives 503.
  The yield route does keep the flag.
\<close>

theorem post_prediction_loses_mock_flag:
  "post_prediction True (\<lambda>_. True) sample_rnd [] ''F1'' ''http://x/leaf.png''
       (Inl (NoResponse ''ECONNABORTED''))
     = (Json 200 \<lparr>pr_farmerId = ''F1'', pr_imageUrl = ''http://x/leaf.png'',
                  pr_prediction = ''Rice - Rust'', pr_confidence = 4 / 5\<rparr>,
        [\<lparr>pr_farmerId = ''F1'', pr_imageUrl = ''http://x/leaf.png'',
          pr_prediction = ''Rice - Rust'', pr_confidence = 4 / 5\<rparr>])
   \<and> post_prediction True (\<lambda>_. True) sample_rnd [] ''F1'' ''http://x/leaf.png''
       (Inr \<lparr>fd_crop = ''Rice'', fd_prediction = ''Rust'', fd_confidence = 4 / 5,
              fd_is_mock = False\<rparr>)
     = post_prediction True (\<lambda>_. True) sample_rnd [] ''F1'' ''http://x/leaf.png''
       (Inl (NoResponse ''ECONNABORTED''))
   \<and> post_prediction False (\<lambda>_. True) sample_rnd [] ''F1'' ''http://x/leaf.png''
       (Inl (NoResponse ''ECONNABORTED'')) = (Message 500 ''Server Error'', [])
   \<and> post_prediction False (\<lambda>_. True) sample_rnd [] ''F1'' ''http://x/leaf.png''
       (Inl (NoResponse ''ECONNREFUSED'')) = (Message 503 ''AI Service Unavailable'', [])
   \<and> post_yield_prediction True sample_mock_result [] ''F1'' sample_yield_request
       (Inl (NoResponse ''ECONNABORTED''))
     = (Json 200 \<lparr>yp_farmerId = ''F1'', yp_request = sample_yield_request,
                  yp_result = sample_mock_result, yp_isMock = True\<rparr>,
        [\<lparr>yp_farmerId = ''F1'', yp_request = sample_yield_request,
          yp_result = sample_mock_result, yp_isMock = True\<rparr>])"
  by (simp add: post_prediction_def post_yield_prediction_def generateMockDiseasePrediction_def
        new_Prediction_def prediction_save_def yield_prediction_save_def
        yield_request_errors_def cropTypes_def diseaseKeys_def sample_rnd_def
        sample_yield_request_def sample_mock_result_def Let_def)

section \<open>Direct order creation: the farmer of the order\<close>

lemma validate_items_products:
  assumes "validate_items ps items acc tot = (Completed, ps', validatedItems, totalAmount)"
  shows "map vi_product validatedItems = map vi_product acc @ map ri_product items"
  using assms
proof (induction items arbitrary: ps acc tot)
  case Nil
  then show ?case by simp
next
  case (Cons item rest)
  from Cons.prems obtain pid where pid: "cast_ObjectId (ri_product item) = Some pid"
    by (auto split: option.splits)
  from Cons.prems pid obtain p where p: "ps pid = Some p"
    by (auto split: option.splits)
  from Cons.prems pid p have q: "\<not> p_quantity p < ri_quantity item"
    by (auto split: if_splits)
  from Cons.prems pid p q obtain saved where
    sv: "product_save (p\<lparr>p_quantity := fl (p_quantity p - ri_quantity item)\<rparr>) = Some saved"
    by (auto simp: Let_def split: option.splits)
  from Cons.prems pid p q sv
  have "validate_items (ps(pid \<mapsto> saved)) rest
          (acc @ [\<lparr>vi_product = ri_product item, vi_quantity = ri_quantity item,
                    vi_price = p_price p, vi_name = p_name p\<rparr>])
          (fl (tot + fl (p_price p * ri_quantity item)))
        = (Completed, ps', validatedItems, totalAmount)"
    by (simp add: Let_def)
  from Cons.IH [OF this] show ?case by simp
qed

lemma validate_items_cast:
  assumes "validate_items ps items acc tot = (Completed, ps', validatedItems, totalAmount)"
  shows "\<forall>item\<in>set items. cast_ObjectId (ri_product item) \<noteq> None"
  using assms
proof (induction items arbitrary: ps acc tot)
  case Nil
  then show ?case by simp
next
  case (Cons item rest)
  from Cons.prems obtain pid where pid: "cast_ObjectId (ri_product item) = Some pid"
    by (auto split: option.splits)
  from Cons.prems pid obtain p where p: "ps pid = Some p"
    by (auto split: option.splits)
  from Cons.prems pid p have q: "\<not> p_quantity p < ri_quantity item"
    by (auto split: if_splits)
  from Cons.prems pid p q obtain saved where
    sv: "product_save (p\<lparr>p_quantity := fl (p_quantity p - ri_quantity item)\<rparr>) = Some saved"
    by (auto simp: Let_def split: option.splits)
  from Cons.prems pid p q sv
  have "validate_items (ps(pid \<mapsto> saved)) rest
          (acc @ [\<lparr>vi_product = ri_product item, vi_quantity = ri_quantity item,
                    vi_price = p_price p, vi_name = p_name p\<rparr>])
          (fl (tot + fl (p_price p * ri_quantity item)))
        = (Completed, ps', validatedItems, totalAmount)"
    by (simp add: Let_def)
  from Cons.IH [OF this] pid show ?case by simp
qed

lemma order_items_cast:
  assumes "\<forall>v\<in>set vs. cast_ObjectId (vi_product v) \<noteq> None"
  shows "order_items vs =
           Some (map (\<lambda>v. \<lparr>oi_product = the (cast_ObjectId (vi_product v)),
                             oi_quantity = vi_quantity v, oi_price = vi_price v,
                             oi_name = vi_name v\<rparr>) vs)"
  using assms by (induction vs) auto

text \<open>
  What the lookup does with the value sent as \<open>product\<close>: an id that is not stored is
  answered 404 with the value interpolated into the message, and a value that does not
  cast makes \<open>findById\<close> throw.
\<close>

lemma create_order_lookup:
  assumes "order_body_errors body = []"
      and "ob_items body = item # others"
  shows "(ri_product item = IdString s \<and> products d s = None \<longrightarrow>
            create_order accepts d u body = (Message 404 (''Product '' @ s @ '' not found''), d))
       \<and> (ri_product item = IdObject (Some s) f \<and> products d s = None \<longrightarrow>
            create_order accepts d u body
              = (Message 404 ''Product [object Object] not found'', d))
       \<and> (ri_product item = IdObject None f \<longrightarrow>
            create_order accepts d u body = (Message 500 ''Server Error'', d))"
  using assms
  by (simp add: create_order_def cast_ObjectId_def interpolated_def)

text \<open>
  C10, as stated, fails where it says that the farmer is undefined for every input. The
  value a client sends as \<open>product\<close> need not be a string: the validation chain passes an
  object, the lookup casts it by its \<open>_id\<close>, and the object's own \<open>farmer\<close> becomes the
  farmer of the order. Here the first item's product is \<open>{ _id: 'pA', farmer: 'F2' }\<close>;
  the product pA belongs to F1, and the order is created for F2.
\<close>

theorem create_order_farmer_counterexample:
  "map ri_product (ob_items object_order_body) = [IdObject (Some ''pA'') (Some ''F2''), IdString ''pB'']
   \<and> map_option p_farmer (products sample_db ''pA'') = Some ''F1''
   \<and> fst (create_order (\<lambda>_. True) sample_db ''C1'' object_order_body)
       = Json 201
           \<lparr>o_consumer = ''C1'', o_farmer = Some ''F2'',
            o_items = [\<lparr>oi_product = ''pA'', oi_quantity = 2, oi_price = 10,
                         oi_name = ''Tomato''\<rparr>,
                       \<lparr>oi_product = ''pB'', oi_quantity = 1, oi_price = 5,
                         oi_name = ''Milk''\<rparr>],
            o_totalAmount = 25, o_paymentMethod = Some ''online'',
            o_shippingDetails = Some sample_shipping, o_notes = None,
            o_status = ''pending'', o_cancelReason = None\<rparr>"
  by (simp add: create_order_def order_body_errors_def shipping_field_missing_def
        payment_methods_def object_order_body_def sample_shipping_def truthy_def
        sample_db_def sample_products_def cast_ObjectId_def farmer_property_def
        product_save_def product_valid_def product_pre_save_def new_direct_order_def
        initial_status_def Let_def)

text \<open>
  C10, amended. When the request passes validation, has at least one item, and the loop
  validates every item, the order the route builds has as farmer the \<open>farmer\<close> property of
  the value the client sent as the first item's \<open>product\<close>: undefined when that value is a
  string, and the object's own \<open>farmer\<close> when it is an object. It is taken neither from the
  stored product nor from a later item. The order's other fields are the consumer, the
  validated items with their products cast to ids, the total, and the request's payment
  method, shipping details and notes. That order is what the route saves and answers with
  201 when the Order schema accepts it, and 500 otherwise.
\<close>

theorem create_order_farmer_from_request:
  assumes "order_body_errors body = []"
      and "ob_items body = item # others"
      and "validate_items (products d) (ob_items body) [] 0
             = (Completed, ps', validatedItems, totalAmount)"
  shows "\<exists>ord.
           ord = \<lparr>o_consumer = user_id,
                  o_farmer = (case ri_product item of IdString s \<Rightarrow> None
                              | IdObject oid farmer \<Rightarrow> farmer),
                  o_items = map (\<lambda>v. \<lparr>oi_product = the (cast_ObjectId (vi_product v)),
                                        oi_quantity = vi_quantity v, oi_price = vi_price v,
                                        oi_name = vi_name v\<rparr>) validatedItems,
                  o_totalAmount = totalAmount,
                  o_paymentMethod = ob_paymentMethod body,
                  o_shippingDetails = ob_shippingDetails body,
                  o_notes = ob_notes body, o_status = ''pending'', o_cancelReason = None\<rparr>
         \<and> map vi_product validatedItems = map ri_product (ob_items body)
         \<and> create_order accepts d user_id body
             = (if accepts ord
                then (Json 201 ord, d\<lparr>products := ps', orders := orders d @ [ord]\<rparr>)
                else (Message 500 ''Server Error'', d\<lparr>products := ps'\<rparr>))"
proof -
  from validate_items_products [OF assms(3)]
  have m: "map vi_product validatedItems = map ri_product (ob_items body)" by simp
  with assms(2) obtain first rest where v: "validatedItems = first # rest"
    by (cases validatedItems) auto
  from m v assms(2) have h: "vi_product first = ri_product item" by simp
  have "\<forall>v\<in>set validatedItems. cast_ObjectId (vi_product v) \<noteq> None"
  proof
    fix x assume "x \<in> set validatedItems"
    then have "vi_product x \<in> set (map vi_product validatedItems)" by simp
    then have "vi_product x \<in> set (map ri_product (ob_items body))" by (simp only: m)
    then show "cast_ObjectId (vi_product x) \<noteq> None"
      using validate_items_cast [OF assms(3)] by auto
  qed
  then have oi: "order_items validatedItems =
           Some (map (\<lambda>v. \<lparr>oi_product = the (cast_ObjectId (vi_product v)),
                             oi_quantity = vi_quantity v, oi_price = vi_price v,
                             oi_name = vi_name v\<rparr>) validatedItems)"
    by (rule order_items_cast)
  show ?thesis
    using assms(1,3) v h oi m
    by (simp add: create_order_def new_direct_order_def farmer_property_def initial_status_def
          Let_def del: order_items.simps)
qed

theorem create_order_farmer_from_request_witness:
  "fst (create_order (\<lambda>_. True) sample_db ''C1'' sample_order_body)
     = Json 201
         \<lparr>o_consumer = ''C1'', o_farmer = None,
          o_items = [\<lparr>oi_product = ''pA'', oi_quantity = 2, oi_price = 10,
                       oi_name = ''Tomato''\<rparr>,
                     \<lparr>oi_product = ''pB'', oi_quantity = 1, oi_price = 5,
                       oi_name = ''Milk''\<rparr>],
          o_totalAmount = 25, o_paymentMethod = Some ''online'',
          o_shippingDetails = Some sample_shipping, o_notes = None,
          o_status = ''pending'', o_cancelReason = None\<rparr>
   \<and> map_option p_farmer (products sample_db ''pA'') = Some ''F1''"
proof -
  have h1: "order_body_errors sample_order_body = []"
    by (simp add: order_body_errors_def shipping_field_missing_def payment_methods_def
          sample_order_body_def sample_shipping_def truthy_def)
  have h2: "ob_items sample_order_body
              = \<lparr>ri_product = IdString ''pA'', ri_quantity = 2\<rparr> # [\<lparr>ri_product = IdString ''pB'', ri_quantity = 1\<rparr>]"
    by (simp add: sample_order_body_def)
  obtain ps' where
    h3: "validate_items (products sample_db) (ob_items sample_order_body) [] 0
           = (Completed, ps',
              [\<lparr>vi_product = IdString ''pA'', vi_quantity = 2, vi_price = 10, vi_name = ''Tomato''\<rparr>,
               \<lparr>vi_product = IdString ''pB'', vi_quantity = 1, vi_price = 5, vi_name = ''Milk''\<rparr>],
              25)"
    by (simp add: sample_order_body_def sample_db_def sample_products_def cast_ObjectId_def
          product_save_def product_valid_def product_pre_save_def Let_def)
  have f: "map_option p_farmer (products sample_db ''pA'') = Some ''F1''"
    by (simp add: sample_db_def sample_products_def)
  from create_order_farmer_from_request [OF h1 h2 h3, of "''C1''" "\<lambda>_. True"] f
  show ?thesis
    by (simp add: cast_ObjectId_def sample_order_body_def)
qed

section \<open>Checkout: the committed database\<close>

lemma checkout_uncommitted_keeps_db:
  assumes "checkout accepts d u body = (r, d', t)" and "t \<noteq> Committed"
  shows "d' = d"
  using assms
  by (auto simp: checkout_def split: if_splits option.splits prod.splits exit.splits)

lemma checkout_committed_reply:
  assumes "checkout accepts d u body = (r, d', Committed)"
  shows "\<exists>created. r = Json 201 created \<and> orders d' = orders d @ created
           \<and> (\<exists>c. carts d' u = Some c \<and> c_items c = [])"
  using assms
  by (auto simp: checkout_def cart_save_items split: if_splits option.splits prod.splits exit.splits)

lemma group_items_reserves:
  assumes "distinct (map ci_product items)"
      and "\<forall>ci\<in>set items. \<exists>p. ps (ci_product ci) = Some p \<and> product_valid p
             \<and> of_int (ci_quantity ci) \<le> p_quantity p"
      and "group_items ps items g = (e, ps', g')"
  shows "(\<forall>ci\<in>set items. \<forall>p. ps (ci_product ci) = Some p \<longrightarrow>
            ps' (ci_product ci)
              = Some (product_pre_save
                        (p\<lparr>p_quantity := fl (p_quantity p - of_int (ci_quantity ci))\<rparr>)))
       \<and> (\<forall>k. k \<notin> ci_product ` set items \<longrightarrow> ps' k = ps k)"
  using assms
proof (induction items arbitrary: ps g)
  case Nil
  then show ?case by simp
next
  case (Cons ci rest)
  from Cons.prems(2) obtain p where
    p: "ps (ci_product ci) = Some p" "product_valid p" "of_int (ci_quantity ci) \<le> p_quantity p"
    by auto
  let ?saved = "product_pre_save (p\<lparr>p_quantity := fl (p_quantity p - of_int (ci_quantity ci))\<rparr>)"
  let ?ps = "ps(ci_product ci \<mapsto> ?saved)"
  let ?g = "push_item g (p_farmer p)
              \<lparr>oi_product = ci_product ci, oi_quantity = of_int (ci_quantity ci),
               oi_price = p_price p, oi_name = p_name p\<rparr>"
  have sv: "product_save (p\<lparr>p_quantity := fl (p_quantity p - of_int (ci_quantity ci))\<rparr>)
              = Some ?saved"
    using p(2,3) by (rule product_save_decrement)
  have notin: "ci_product ci \<notin> ci_product ` set rest" using Cons.prems(1) by simp
  have other: "\<forall>c\<in>set rest. ?ps (ci_product c) = ps (ci_product c)"
    using notin by (auto simp: image_iff)
  have d: "distinct (map ci_product rest)" using Cons.prems(1) by simp
  have st: "\<forall>c\<in>set rest. \<exists>q. ?ps (ci_product c) = Some q \<and> product_valid q
              \<and> of_int (ci_quantity c) \<le> p_quantity q"
    using Cons.prems(2) other by auto
  have run: "group_items ?ps rest ?g = (e, ps', g')"
    using Cons.prems(3) p sv by (simp add: Let_def)
  from Cons.IH [OF d st run]
  have ih1: "\<forall>c\<in>set rest. \<forall>q. ?ps (ci_product c) = Some q \<longrightarrow>
               ps' (ci_product c)
                 = Some (product_pre_save
                           (q\<lparr>p_quantity := fl (p_quantity q - of_int (ci_quantity c))\<rparr>))"
   and ih2: "\<forall>k. k \<notin> ci_product ` set rest \<longrightarrow> ps' k = ?ps k"
    by blast+
  have head: "ps' (ci_product ci) = Some ?saved" using ih2 notin by simp
  show ?case
  proof (intro conjI ballI allI impI)
    fix c q
    assume c: "c \<in> set (ci # rest)" and q: "ps (ci_product c) = Some q"
    show "ps' (ci_product c)
            = Some (product_pre_save
                      (q\<lparr>p_quantity := fl (p_quantity q - of_int (ci_quantity c))\<rparr>))"
    proof (cases "c = ci")
      case True
      with q p head show ?thesis by simp
    next
      case False
      with c have "c \<in> set rest" by simp
      with ih1 other q show ?thesis by simp
    qed
  next
    fix k
    assume "k \<notin> ci_product ` set (ci # rest)"
    then show "ps' k = ps k" using ih2 by simp
  qed
qed

text \<open>
  A checkout that meets the hypotheses of the theorem on orders also takes every line's
  quantity off its product, in doubles, re-deriving the status, leaves the other products
  alone, and empties the cart.
\<close>

lemma checkout_reserves_stock:
  assumes "truthy (paymentMethod body)"
      and "shippingDetails body = Some sd" and "truthy (address sd)"
      and "carts d user_id = Some cart" and "c_items cart \<noteq> []"
      and "distinct (map ci_product (c_items cart))"
      and "\<forall>ci\<in>set (c_items cart).
             \<exists>p. products d (ci_product ci) = Some p \<and> product_valid p
               \<and> of_int (ci_quantity ci) \<le> p_quantity p"
      and "checkout accepts d user_id body = (r, d', Committed)"
  shows "(\<forall>ci\<in>set (c_items cart). \<forall>p. products d (ci_product ci) = Some p \<longrightarrow>
            products d' (ci_product ci)
              = Some (product_pre_save
                        (p\<lparr>p_quantity := fl (p_quantity p - of_int (ci_quantity ci))\<rparr>)))
       \<and> (\<forall>k. k \<notin> ci_product ` set (c_items cart) \<longrightarrow> products d' k = products d k)
       \<and> (\<exists>c. carts d' user_id = Some c \<and> c_items c = [])"
proof -
  obtain e ps' g' where g: "group_items (products d) (c_items cart) [] = (e, ps', g')"
    by (cases "group_items (products d) (c_items cart) []") auto
  from assms(1-5,8) g have "products d' = ps'"
    by (auto simp: checkout_def split: if_splits option.splits exit.splits)
  with group_items_reserves [OF assms(6) assms(7) g] checkout_committed_reply [OF assms(8)]
  show ?thesis by auto
qed


end
